theory Spec2Isabelle
  imports Complex_Main
begin

section \<open>Demand forecasting and inventory optimisation (ai\_analytics.py)\<close>

text \<open>
  A shallow embedding of \<^verbatim>\<open>src/ai_analytics.py\<close>: the classes \<^verbatim>\<open>DemandForecaster\<close>,
  \<^verbatim>\<open>PriceOptimizer\<close> and \<^verbatim>\<open>AutoReorderSystem\<close>.

  Conventions.
  \<^item> Python floats are modelled as \<^typ>\<open>real\<close>; NaN and the infinities that numpy produces
    (division of a numpy scalar by zero, a negative base under a fractional power, the
    square root of a negative number) are outside this idealisation.
  \<^item> Every method of the source wraps its body in \<^verbatim>\<open>try: ... except Exception as e:
    return {"error": str(e)}\<close>. A result is therefore a sum: \<open>Inl msg\<close> is the dictionary
    \<^verbatim>\<open>{"error": msg}\<close>, \<open>Inr r\<close> is the dictionary with \<^verbatim>\<open>"success": True\<close>; the test
    \<^verbatim>\<open>"error" in result\<close> is \<open>isl\<close>.
  \<^item> A result dictionary is a record; a key that only some paths write is an
    \<open>option\<close> field (\<open>None\<close>: the key is absent). The fields carry the key's name
    after a prefix for the record (\<open>tr_\<close>, \<open>fc_\<close>, \<open>er_\<close>, \<open>pr_\<close>, \<open>rc_\<close>, \<open>sg_\<close>),
    which keeps them apart from the local variables of the same name.
  \<^item> The database session and the libraries (pandas, scikit-learn, scipy, string
    formatting) are not code of the repository: the database is a record of query results,
    the library functions are a record of functions, both parameters of every definition.
\<close>

subsection \<open>Numbers\<close>

type_synonym err = string
type_synonym date = int

text \<open>Rounding half to even, as \<^verbatim>\<open>round(x, n)\<close> does on floats.\<close>

definition round_half_even :: "real \<Rightarrow> int" where
  "round_half_even x =
     (let f = \<lfloor>x\<rfloor>; d = x - of_int f
      in if d < 1/2 then f else if 1/2 < d then f + 1 else if even f then f else f + 1)"

definition py_round :: "real \<Rightarrow> nat \<Rightarrow> real" where
  "py_round x n = of_int (round_half_even (x * 10 ^ n)) / 10 ^ n"

text \<open>\<^verbatim>\<open>float('inf')\<close> is the initial best score of the model selection.\<close>

datatype pyfloat = Finite real | PosInf

fun float_less :: "real \<Rightarrow> pyfloat \<Rightarrow> bool" where
  "float_less x PosInf = True"
| "float_less x (Finite y) = (x < y)"

definition np_mean :: "real list \<Rightarrow> real" where
  "np_mean xs = sum_list xs / real (length xs)"

text \<open>\<^verbatim>\<open>np.std\<close>: the population standard deviation (ddof = 0).\<close>

definition np_std :: "real list \<Rightarrow> real" where
  "np_std xs = sqrt (sum_list (map (\<lambda>x. (x - np_mean xs)\<^sup>2) xs) / real (length xs))"

text \<open>\<^verbatim>\<open>Series.std()\<close> of pandas: the sample standard deviation (ddof = 1).\<close>

definition pd_std :: "real list \<Rightarrow> real" where
  "pd_std xs = sqrt (sum_list (map (\<lambda>x. (x - np_mean xs)\<^sup>2) xs) / (real (length xs) - 1))"

text \<open>The first error of a sequence of fallible steps wins, as a raised exception does.\<close>

fun map_err :: "('a \<Rightarrow> err + 'b) \<Rightarrow> 'a list \<Rightarrow> err + 'b list" where
  "map_err f [] = Inr []"
| "map_err f (x # xs) =
     (case f x of Inl e \<Rightarrow> Inl e
      | Inr y \<Rightarrow> (case map_err f xs of Inl e \<Rightarrow> Inl e | Inr ys \<Rightarrow> Inr (y # ys)))"

subsection \<open>The database and the libraries\<close>

text \<open>A row of the query of \<^verbatim>\<open>get_sales_data\<close> (the columns the code reads).\<close>

record sale_row =
  sr_product_id :: int
  sr_sale_date :: date
  sr_quantity :: real
  sr_price :: real
  sr_location_id :: int

text \<open>A row of \<^verbatim>\<open>products\<close>; \<open>None\<close> is SQL NULL.\<close>

record product_row =
  p_price :: "real option"
  p_cost :: "real option"
  p_name :: string

text \<open>A row of the low-stock query of \<^verbatim>\<open>generate_reorder_suggestions\<close>.\<close>

record low_stock_row =
  ls_product_id :: int
  ls_location_id :: int
  ls_stock_quantity :: int
  ls_name :: string
  ls_reorder_level :: int
  ls_reorder_quantity :: int

text \<open>
  The database session: one field for each SQL query of the module, giving the rows
  \<^verbatim>\<open>self.db.execute\<close> returns, or the message of the exception it raises.
  \<^item> \<open>q_sales flt days_back\<close>: the query of \<^verbatim>\<open>get_sales_data\<close>, ordered by sale date, with
    the product filter \<open>flt\<close>;
  \<^item> \<open>q_price_history pid\<close>: (price, quantity) of the last 180 days
    (\<^verbatim>\<open>get_price_elasticity\<close>);
  \<^item> \<open>q_product pid\<close>: the row of \<^verbatim>\<open>products\<close>, if any;
  \<^item> \<open>q_avg_daily_sales pid\<close>: the average daily quantity of the last 30 days
    (\<^verbatim>\<open>optimize_price\<close>), \<open>None\<close> for NULL;
  \<^item> \<open>q_daily_sales_at pid loc\<close>: the daily quantities of the last 90 days at a location
    (\<^verbatim>\<open>calculate_reorder_point\<close>);
  \<^item> \<open>q_avg_daily_sales_at pid loc\<close>: the 30-day average at a location
    (\<^verbatim>\<open>_simple_reorder_calculation\<close>);
  \<^item> \<open>q_low_stock flt\<close>: the pairs with \<^verbatim>\<open>stock_quantity <= reorder_level\<close>, with the
    location filter \<open>flt\<close>.
\<close>

record db =
  q_sales :: "int option \<Rightarrow> int \<Rightarrow> err + sale_row list"
  q_price_history :: "int \<Rightarrow> err + (real \<times> real) list"
  q_product :: "int \<Rightarrow> err + product_row option"
  q_avg_daily_sales :: "int \<Rightarrow> err + real option"
  q_daily_sales_at :: "int \<Rightarrow> int \<Rightarrow> err + real list"
  q_avg_daily_sales_at :: "int \<Rightarrow> int \<Rightarrow> err + real option"
  q_low_stock :: "int option \<Rightarrow> err + low_stock_row list"

text \<open>A fitted scikit-learn estimator: its \<^verbatim>\<open>predict\<close> on one row, and whether it has the
  attribute \<^verbatim>\<open>coef_\<close> (only the linear model has).\<close>

record model =
  predict :: "real list \<Rightarrow> err + real"
  has_coef :: bool

record scaler =
  transform :: "real list \<Rightarrow> err + real list"

text \<open>
  The library functions the module calls.
  \<^item> \<open>dayofweek\<close>, \<open>month\<close>, \<open>quarter\<close>, \<open>strftime\<close>: attributes of a pandas timestamp and
    its format \<^verbatim>\<open>'%Y-%m-%d'\<close>;
  \<^item> \<open>build_training_table pid rows\<close>: lines 110 to 145 of \<^verbatim>\<open>train_demand_model\<close>, the
    pandas pipeline from the raw rows to the table after \<^verbatim>\<open>dropna()\<close>, each row a feature
    vector \<^verbatim>\<open>X\<close> with its target \<^verbatim>\<open>y\<close>;
  \<^item> \<open>fit_scaler\<close>: \<^verbatim>\<open>StandardScaler().fit\<close>; \<open>fit_model name\<close>: the \<^verbatim>\<open>fit\<close> of the
    estimator registered under \<open>name\<close>;
  \<^item> \<open>norm_ppf\<close>: \<^verbatim>\<open>scipy.stats.norm.ppf\<close>;
  \<^item> \<open>str_num\<close>: the text of a number in an f-string; \<open>fmt_fixed n\<close>: the format
    \<^verbatim>\<open>:.nf\<close>;
  \<^item> \<open>price_buckets\<close>: \<^verbatim>\<open>pd.cut(bins=5)\<close>, the aggregation per bucket and \<^verbatim>\<open>dropna()\<close>,
    giving (summed quantity, mean price) per bucket;
  \<^item> \<open>linreg_slope xs ys\<close>: the coefficient of \<^verbatim>\<open>LinearRegression().fit\<close> on one variable.
\<close>

record lib =
  dayofweek :: "date \<Rightarrow> nat"
  month :: "date \<Rightarrow> nat"
  quarter :: "date \<Rightarrow> nat"
  strftime :: "date \<Rightarrow> string"
  build_training_table :: "int \<Rightarrow> sale_row list \<Rightarrow> err + (real list \<times> real) list"
  fit_scaler :: "real list list \<Rightarrow> err + scaler"
  fit_model :: "string \<Rightarrow> real list list \<Rightarrow> real list \<Rightarrow> err + model"
  norm_ppf :: "real \<Rightarrow> real"
  str_num :: "real \<Rightarrow> string"
  fmt_fixed :: "nat \<Rightarrow> real \<Rightarrow> string"
  price_buckets :: "(real \<times> real) list \<Rightarrow> err + (real \<times> real) list"
  linreg_slope :: "real list \<Rightarrow> real list \<Rightarrow> err + real"

subsection \<open>DemandForecaster\<close>

text \<open>
  The state of a \<^verbatim>\<open>DemandForecaster\<close>: the dictionaries \<^verbatim>\<open>self.models\<close> and
  \<^verbatim>\<open>self.scalers\<close>, and the files \<^verbatim>\<open>models/demand_model_<id>.joblib\<close> and
  \<^verbatim>\<open>models/scaler_<id>.joblib\<close>, keyed by product id. A stored model is an \<open>option\<close>
  because \<^verbatim>\<open>best_model\<close> starts as \<^verbatim>\<open>None\<close>.
\<close>

record forecaster =
  models :: "int \<rightharpoonup> model option"
  scalers :: "int \<rightharpoonup> scaler"
  model_files :: "int \<rightharpoonup> model option"
  scaler_files :: "int \<rightharpoonup> scaler"

text \<open>\<^verbatim>\<open>get_sales_data\<close>: \<^verbatim>\<open>if product_id:\<close> is false for \<^verbatim>\<open>None\<close> and for 0.\<close>

definition get_sales_data :: "db \<Rightarrow> int option \<Rightarrow> int \<Rightarrow> err + sale_row list" where
  "get_sales_data D product_id days_back =
     q_sales D (case product_id of None \<Rightarrow> None
                | Some p \<Rightarrow> if p \<noteq> 0 then Some p else None) days_back"

text \<open>\<^verbatim>\<open>train_test_split(test_size=0.2, shuffle=False)\<close>: the last
  \<open>\<lceil>0.2 n\<rceil>\<close> rows are the test set.\<close>

definition train_test_split :: "'a list \<Rightarrow> 'a list \<times> 'a list" where
  "train_test_split xs =
     (let n_test = nat \<lceil>0.2 * real (length xs)\<rceil>; n_train = length xs - n_test
      in (take n_train xs, drop n_train xs))"

definition mean_absolute_error :: "real list \<Rightarrow> real list \<Rightarrow> real" where
  "mean_absolute_error y_true y_pred =
     sum_list (map2 (\<lambda>y p. \<bar>y - p\<bar>) y_true y_pred) / real (length y_true)"

text \<open>The accumulator of the selection loop: \<^verbatim>\<open>best_model\<close>, \<^verbatim>\<open>best_score\<close>,
  \<^verbatim>\<open>best_model_name\<close>.\<close>

type_synonym best = "model option \<times> pyfloat \<times> string option"

text \<open>Lines 178 to 181: \<^verbatim>\<open>if mae < best_score:\<close> replaces the best candidate.\<close>

definition consider_candidate :: "best \<Rightarrow> string \<Rightarrow> model \<Rightarrow> real \<Rightarrow> best" where
  "consider_candidate b name m mae =
     (case b of (best_model, best_score, best_model_name) \<Rightarrow>
        if float_less mae best_score then (Some m, Finite mae, Some name) else b)"

text \<open>Lines 169 to 176: the linear model is fitted and scored on the scaled features,
  the other two on the raw ones.\<close>

definition fit_and_score ::
  "lib \<Rightarrow> real list list \<Rightarrow> real list list \<Rightarrow> real list \<Rightarrow>
   real list list \<Rightarrow> real list list \<Rightarrow> real list \<Rightarrow> string \<Rightarrow> err + model \<times> real" where
  "fit_and_score L X_train X_train_scaled y_train X_test X_test_scaled y_test name =
     (let tr = (if name = ''linear_regression'' then X_train_scaled else X_train);
          te = (if name = ''linear_regression'' then X_test_scaled else X_test)
      in case fit_model L name tr y_train of Inl e \<Rightarrow> Inl e
         | Inr m \<Rightarrow>
           (case map_err (predict m) te of Inl e \<Rightarrow> Inl e
            | Inr y_pred \<Rightarrow> Inr (m, mean_absolute_error y_test y_pred)))"

text \<open>Lines 168 to 181: the loop over \<^verbatim>\<open>models.items()\<close>, in insertion order.\<close>

fun candidates_loop ::
  "lib \<Rightarrow> real list list \<Rightarrow> real list list \<Rightarrow> real list \<Rightarrow>
   real list list \<Rightarrow> real list list \<Rightarrow> real list \<Rightarrow> string list \<Rightarrow> best \<Rightarrow> err + best" where
  "candidates_loop L Xtr Xtrs ytr Xte Xtes yte [] b = Inr b"
| "candidates_loop L Xtr Xtrs ytr Xte Xtes yte (name # names) b =
     (case fit_and_score L Xtr Xtrs ytr Xte Xtes yte name of Inl e \<Rightarrow> Inl e
      | Inr (m, mae) \<Rightarrow> candidates_loop L Xtr Xtrs ytr Xte Xtes yte names (consider_candidate b name m mae))"

definition model_names :: "string list" where
  "model_names = [''random_forest'', ''gradient_boosting'', ''linear_regression'']"

record train_result =
  tr_model_type :: "string option"
  tr_mae :: pyfloat
  tr_training_samples :: nat
  tr_test_samples :: nat

text \<open>Lines 183 to 191: both files are written, then both dictionaries.\<close>

definition persist :: "forecaster \<Rightarrow> int \<Rightarrow> model option \<Rightarrow> scaler \<Rightarrow> forecaster" where
  "persist st product_id best_model sc =
     st\<lparr>model_files := (model_files st)(product_id \<mapsto> best_model),
        scaler_files := (scaler_files st)(product_id \<mapsto> sc),
        models := (models st)(product_id \<mapsto> best_model),
        scalers := (scalers st)(product_id \<mapsto> sc)\<rparr>"

text \<open>Lines 147 to 199, from the table of features to the result.\<close>

definition train_on_table ::
  "lib \<Rightarrow> forecaster \<Rightarrow> int \<Rightarrow> (real list \<times> real) list \<Rightarrow> (err + train_result) \<times> forecaster" where
  "train_on_table L st product_id features_df =
     (let (X_train, X_test) = train_test_split (map fst features_df);
          (y_train, y_test) = train_test_split (map snd features_df)
      in case fit_scaler L X_train of Inl e \<Rightarrow> (Inl e, st)
         | Inr sc \<Rightarrow>
         (case map_err (transform sc) X_train of Inl e \<Rightarrow> (Inl e, st)
          | Inr X_train_scaled \<Rightarrow>
          (case map_err (transform sc) X_test of Inl e \<Rightarrow> (Inl e, st)
           | Inr X_test_scaled \<Rightarrow>
           (case candidates_loop L X_train X_train_scaled y_train X_test X_test_scaled y_test
                   model_names (None, PosInf, None) of
              Inl e \<Rightarrow> (Inl e, st)
            | Inr (best_model, best_score, best_model_name) \<Rightarrow>
                (Inr \<lparr>tr_model_type = best_model_name, tr_mae = best_score,
                      tr_training_samples = length X_train, tr_test_samples = length X_test\<rparr>,
                 persist st product_id best_model sc)))))"

definition train_demand_model ::
  "lib \<Rightarrow> db \<Rightarrow> forecaster \<Rightarrow> int \<Rightarrow> (err + train_result) \<times> forecaster" where
  "train_demand_model L D st product_id =
     (case get_sales_data D (Some product_id) 365 of Inl e \<Rightarrow> (Inl e, st)
      | Inr sales_data \<Rightarrow>
          if length sales_data < 30 then (Inl ''Insufficient historical data'', st)
          else (case build_training_table L product_id sales_data of Inl e \<Rightarrow> (Inl e, st)
                | Inr features_df \<Rightarrow>
                    if length features_df < 20
                    then (Inl ''Insufficient clean data after feature extraction'', st)
                    else train_on_table L st product_id features_df))"

text \<open>Lines 254 to 280 of \<^verbatim>\<open>predict_demand\<close>. The feature row is a dictionary filled in
  this order, so it is an association list: a lag or rolling feature is written only
  when the history is long enough, and the missing ones are appended with value 0
  afterwards.\<close>

definition recent_quantities :: "sale_row list \<Rightarrow> real list" where
  "recent_quantities recent_sales =
     (let q = map sr_quantity recent_sales in drop (length q - 30) q)"

text \<open>\<^verbatim>\<open>a[-k]\<close> and \<^verbatim>\<open>a[-k:]\<close>, used only under \<^verbatim>\<open>len(a) >= k\<close>.\<close>

definition from_end :: "real list \<Rightarrow> nat \<Rightarrow> real" where
  "from_end a k = a ! (length a - k)"

definition last_k :: "real list \<Rightarrow> nat \<Rightarrow> real list" where
  "last_k a k = drop (length a - k) a"

definition lag_features :: "real list \<Rightarrow> (string \<times> real) list" where
  "lag_features a =
     (if 1 \<le> length a then [(''sales_lag_1'', from_end a 1)] else []) @
     (if 7 \<le> length a then [(''sales_lag_7'', from_end a 7)] else []) @
     (if 14 \<le> length a then [(''sales_lag_14'', from_end a 14)] else []) @
     (if 30 \<le> length a then [(''sales_lag_30'', from_end a 30)] else []) @
     (if 7 \<le> length a
      then [(''sales_mean_7'', np_mean (last_k a 7)), (''sales_std_7'', np_std (last_k a 7))]
      else []) @
     (if 14 \<le> length a
      then [(''sales_mean_14'', np_mean (last_k a 14)), (''sales_std_14'', np_std (last_k a 14))]
      else []) @
     (if 30 \<le> length a
      then [(''sales_mean_30'', np_mean (last_k a 30)), (''sales_std_30'', np_std (last_k a 30))]
      else [])"

definition lag_keys :: "string list" where
  "lag_keys = [''sales_lag_1'', ''sales_lag_7'', ''sales_lag_14'', ''sales_lag_30'',
               ''sales_mean_7'', ''sales_std_7'', ''sales_mean_14'', ''sales_std_14'',
               ''sales_mean_30'', ''sales_std_30'']"

fun fill_missing :: "string list \<Rightarrow> (string \<times> real) list \<Rightarrow> (string \<times> real) list" where
  "fill_missing [] row = row"
| "fill_missing (k # ks) row =
     fill_missing ks (if map_of row k = None then row @ [(k, 0)] else row)"

text \<open>Lines 240 to 251; the keys \<^verbatim>\<open>product_id\<close> and \<^verbatim>\<open>sale_date\<close> are left out of the
  feature vector at line 283 and are not modelled.\<close>

definition calendar_features :: "lib \<Rightarrow> date \<Rightarrow> (string \<times> real) list" where
  "calendar_features L d =
     [(''day_of_week'', real (dayofweek L d)),
      (''month'', real (month L d)),
      (''quarter'', real (quarter L d)),
      (''is_weekend'', if dayofweek L d = 5 \<or> dayofweek L d = 6 then 1 else 0),
      (''sin_month'', sin (2 * pi * real (month L d) / 12)),
      (''cos_month'', cos (2 * pi * real (month L d) / 12)),
      (''sin_day'', sin (2 * pi * real (dayofweek L d) / 7)),
      (''cos_day'', cos (2 * pi * real (dayofweek L d) / 7))]"

definition feature_row :: "lib \<Rightarrow> sale_row list \<Rightarrow> date \<Rightarrow> (string \<times> real) list" where
  "feature_row L recent_sales d =
     fill_missing lag_keys (calendar_features L d @ lag_features (recent_quantities recent_sales))"

text \<open>Lines 282 to 295: one day of the forecast; the result is \<^verbatim>\<open>max(0, pred)\<close>.\<close>

definition predict_day :: "lib \<Rightarrow> forecaster \<Rightarrow> int \<Rightarrow> sale_row list \<Rightarrow> date \<Rightarrow> err + real" where
  "predict_day L st product_id recent_sales d =
     (let X = map snd (feature_row L recent_sales d)
      in case models st product_id of
           None \<Rightarrow> Inl ''KeyError''
         | Some None \<Rightarrow> Inl ''NoneType object has no attribute predict''
         | Some (Some m) \<Rightarrow>
             (case (if has_coef m
                    then (case scalers st product_id of None \<Rightarrow> Inl ''KeyError''
                          | Some sc \<Rightarrow> transform sc X)
                    else Inr X) of
                Inl e \<Rightarrow> Inl e
              | Inr X' \<Rightarrow> (case predict m X' of Inl e \<Rightarrow> Inl e | Inr pred \<Rightarrow> Inr (max 0 pred))))"

text \<open>Lines 238 to 300: the loop over \<^verbatim>\<open>future_dates\<close>; \<open>predictions\<close> is the list built
  so far, each entry the formatted date and \<^verbatim>\<open>round(pred, 2)\<close>.\<close>

fun forecast_loop ::
  "lib \<Rightarrow> forecaster \<Rightarrow> int \<Rightarrow> sale_row list \<Rightarrow> date list \<Rightarrow> (string \<times> real) list
   \<Rightarrow> err + (string \<times> real) list" where
  "forecast_loop L st product_id recent_sales [] predictions = Inr predictions"
| "forecast_loop L st product_id recent_sales (d # ds) predictions =
     (case predict_day L st product_id recent_sales d of Inl e \<Rightarrow> Inl e
      | Inr pred \<Rightarrow>
          forecast_loop L st product_id recent_sales ds
            (predictions @ [(strftime L d, py_round pred 2)]))"

text \<open>\<^verbatim>\<open>recent_sales['sale_date'].max()\<close> of a non-empty frame.\<close>

fun max_date :: "sale_row list \<Rightarrow> date" where
  "max_date [] = 0"
| "max_date (r # rs) = fold (\<lambda>r' m. max (sr_sale_date r') m) rs (sr_sale_date r)"

text \<open>\<^verbatim>\<open>pd.date_range(start, periods=n, freq='D')\<close>; a negative \<open>n\<close> raises.\<close>

definition date_range :: "date \<Rightarrow> int \<Rightarrow> err + date list" where
  "date_range start periods =
     (if periods < 0 then Inl ''Number of periods must be non-negative''
      else Inr (map (\<lambda>i. start + int i) [0..<nat periods]))"

record forecast =
  fc_product_id :: int
  fc_predictions :: "(string \<times> real) list"
  fc_total_predicted_demand :: real
  fc_average_daily_demand :: real

text \<open>Lines 209 to 220: the model is taken from memory, else loaded from its file, else
  trained. The model file is read before the scaler file, so a missing scaler file leaves
  the model in memory.\<close>

definition load_model :: "lib \<Rightarrow> db \<Rightarrow> forecaster \<Rightarrow> int \<Rightarrow> err option \<times> forecaster" where
  "load_model L D st product_id =
     (if models st product_id \<noteq> None then (None, st)
      else (case model_files st product_id of
              None \<Rightarrow>
                (case train_demand_model L D st product_id of
                   (Inl e, st') \<Rightarrow> (Some e, st')
                 | (Inr r, st') \<Rightarrow> (None, st'))
            | Some m \<Rightarrow>
                (let st1 = st\<lparr>models := (models st)(product_id \<mapsto> m)\<rparr>
                 in case scaler_files st product_id of
                      None \<Rightarrow> (Some ''FileNotFoundError'', st1)
                    | Some sc \<Rightarrow> (None, st1\<lparr>scalers := (scalers st1)(product_id \<mapsto> sc)\<rparr>))))"

text \<open>Lines 222 to 310. The last key of the result divides by \<^verbatim>\<open>days_ahead\<close>.\<close>

definition forecast_from ::
  "lib \<Rightarrow> db \<Rightarrow> forecaster \<Rightarrow> int \<Rightarrow> int \<Rightarrow> err + forecast" where
  "forecast_from L D st product_id days_ahead =
     (case get_sales_data D (Some product_id) 90 of Inl e \<Rightarrow> Inl e
      | Inr recent_sales \<Rightarrow>
          if recent_sales = [] then Inl ''No recent sales data available''
          else (case date_range (max_date recent_sales + 1) days_ahead of Inl e \<Rightarrow> Inl e
                | Inr future_dates \<Rightarrow>
                    (case forecast_loop L st product_id recent_sales future_dates [] of
                       Inl e \<Rightarrow> Inl e
                     | Inr preds \<Rightarrow>
                         (let total_predicted = sum_list (map snd preds)
                          in if days_ahead = 0 then Inl ''division by zero''
                             else Inr \<lparr>fc_product_id = product_id,
                                       fc_predictions = preds,
                                       fc_total_predicted_demand = py_round total_predicted 2,
                                       fc_average_daily_demand =
                                         py_round (total_predicted / real_of_int days_ahead) 2\<rparr>))))"

definition predict_demand ::
  "lib \<Rightarrow> db \<Rightarrow> forecaster \<Rightarrow> int \<Rightarrow> int \<Rightarrow> (err + forecast) \<times> forecaster" where
  "predict_demand L D st product_id days_ahead =
     (case load_model L D st product_id of
        (Some e, st') \<Rightarrow> (Inl e, st')
      | (None, st') \<Rightarrow> (forecast_from L D st' product_id days_ahead, st'))"

subsection \<open>PriceOptimizer\<close>

record elasticity_result =
  er_price_elasticity :: real
  er_interpretation :: string
  er_data_points :: nat

definition interpret_elasticity :: "real \<Rightarrow> string" where
  "interpret_elasticity elasticity =
     (if 0 < elasticity then ''Unusual: Positive elasticity (demand increases with price)''
      else if - 0.5 < elasticity
      then ''Inelastic: Demand is relatively insensitive to price changes''
      else if - 1 < elasticity then ''Moderately elastic: Demand responds to price changes''
      else ''Highly elastic: Demand is very sensitive to price changes'')"

definition get_price_elasticity :: "lib \<Rightarrow> db \<Rightarrow> int \<Rightarrow> err + elasticity_result" where
  "get_price_elasticity L D product_id =
     (case q_price_history D product_id of Inl e \<Rightarrow> Inl e
      | Inr df \<Rightarrow>
          if length df < 10 then Inl ''Insufficient price variation data''
          else (case price_buckets L df of Inl e \<Rightarrow> Inl e
                | Inr price_demand \<Rightarrow>
                    if length price_demand < 3
                    then Inl ''Insufficient price points for elasticity calculation''
                    else (let log_price = map (\<lambda>(q, p). ln p) price_demand;
                              log_quantity = map (\<lambda>(q, p). ln (q + 1)) price_demand
                          in case linreg_slope L log_price log_quantity of Inl e \<Rightarrow> Inl e
                             | Inr elasticity \<Rightarrow>
                                 Inr \<lparr>er_price_elasticity = py_round elasticity 3,
                                      er_interpretation = interpret_elasticity elasticity,
                                      er_data_points = length price_demand\<rparr>)))"

text \<open>Lines 441 to 445, with the variables the closure captures as arguments.\<close>

definition profit_function :: "real \<Rightarrow> real \<Rightarrow> real \<Rightarrow> real \<Rightarrow> real \<Rightarrow> real" where
  "profit_function cost base_demand current_price elasticity price =
     (if price \<le> cost then 0
      else (price - cost) * (base_demand * ((price / current_price) powr elasticity)))"

text \<open>\<^verbatim>\<open>np.linspace(start, stop, num)\<close> for \<open>num\<close> at least 2.\<close>

definition np_linspace :: "real \<Rightarrow> real \<Rightarrow> nat \<Rightarrow> real list" where
  "np_linspace start stop num =
     map (\<lambda>i. start + real i * ((stop - start) / real (num - 1))) [0..<num]"

text \<open>\<^verbatim>\<open>np.argmax\<close>: the first index of the maximum.\<close>

fun argmax_from :: "real list \<Rightarrow> nat \<Rightarrow> nat \<Rightarrow> real \<Rightarrow> nat" where
  "argmax_from [] i best_i best = best_i"
| "argmax_from (x # xs) i best_i best =
     (if best < x then argmax_from xs (Suc i) i x else argmax_from xs (Suc i) best_i best)"

definition np_argmax :: "real list \<Rightarrow> nat" where
  "np_argmax xs = (case xs of [] \<Rightarrow> 0 | x # rest \<Rightarrow> argmax_from rest 1 0 x)"

text \<open>Line 405: \<^verbatim>\<open>product.cost or current_cost\<close>; NULL and 0 are false.\<close>

definition effective_cost :: "product_row \<Rightarrow> real \<Rightarrow> real" where
  "effective_cost product current_cost =
     (case p_cost product of None \<Rightarrow> current_cost
      | Some c \<Rightarrow> if c \<noteq> 0 then c else current_cost)"

definition generate_price_recommendation :: "lib \<Rightarrow> real \<Rightarrow> real \<Rightarrow> real \<Rightarrow> real \<Rightarrow> string" where
  "generate_price_recommendation L current optimal target elasticity =
     (if \<bar>optimal - current\<bar> / current < 0.05
      then ''Current price is near optimal. Consider minor adjustments based on market conditions.''
      else if current < optimal
      then ''Consider increasing price by '' @ fmt_fixed L 1 ((optimal - current) / current * 100)
           @ ''% to $'' @ fmt_fixed L 2 optimal @ '' for maximum profit.''
      else ''Consider decreasing price by '' @ fmt_fixed L 1 ((current - optimal) / current * 100)
           @ ''% to $'' @ fmt_fixed L 2 optimal @ '' to increase volume and profit.'')"

record price_result =
  pr_current_price :: real
  pr_optimal_price :: real
  pr_target_margin_price :: real
  pr_current_margin :: real
  pr_optimal_margin :: real
  pr_profit_improvement_percent :: real
  pr_price_elasticity :: real
  pr_recommendation :: string

text \<open>
  \<^verbatim>\<open>optimize_price\<close>. The divisions on Python floats raise \<^verbatim>\<open>ZeroDivisionError\<close>: by
  \<^verbatim>\<open>current_price\<close> at lines 457, 462 and 469, by \<^verbatim>\<open>1 - target_margin\<close> at line 461.
  The scan divides numpy scalars, which does not raise.
\<close>

definition optimize_price :: "lib \<Rightarrow> db \<Rightarrow> int \<Rightarrow> real \<Rightarrow> real \<Rightarrow> err + price_result" where
  "optimize_price L D product_id current_cost target_margin =
     (case q_product D product_id of Inl e \<Rightarrow> Inl e
      | Inr None \<Rightarrow> Inl ''Product not found''
      | Inr (Some product) \<Rightarrow>
        (case p_price product of
           None \<Rightarrow> Inl ''float() argument must be a string or a real number''
         | Some current_price \<Rightarrow>
           (let cost = effective_cost product current_cost;
                elasticity = (case get_price_elasticity L D product_id of Inl e \<Rightarrow> - 1
                              | Inr r \<Rightarrow> er_price_elasticity r)
            in case q_avg_daily_sales D product_id of Inl e \<Rightarrow> Inl e
               | Inr avg_sales \<Rightarrow>
                 (let base_demand = (case avg_sales of None \<Rightarrow> 1
                                     | Some a \<Rightarrow> if a \<noteq> 0 then a else 1);
                      profit = profit_function cost base_demand current_price elasticity;
                      price_range = np_linspace (cost * 1.1) (current_price * 2) 100;
                      profits = map profit price_range;
                      optimal_idx = np_argmax profits;
                      optimal_price = price_range ! optimal_idx;
                      max_profit = profits ! optimal_idx;
                      optimal_margin = (optimal_price - cost) / optimal_price
                  in if current_price = 0 \<or> target_margin = 1
                     then Inl ''float division by zero''
                     else (let current_profit = profit current_price;
                               profit_improvement =
                                 (if 0 < current_profit
                                  then (max_profit - current_profit) / current_profit * 100
                                  else 0);
                               target_price = cost / (1 - target_margin)
                           in Inr \<lparr>pr_current_price = py_round current_price 2,
                                   pr_optimal_price = py_round optimal_price 2,
                                   pr_target_margin_price = py_round target_price 2,
                                   pr_current_margin =
                                     py_round ((current_price - cost) / current_price) 3,
                                   pr_optimal_margin = py_round optimal_margin 3,
                                   pr_profit_improvement_percent = py_round profit_improvement 1,
                                   pr_price_elasticity = py_round elasticity 3,
                                   pr_recommendation =
                                     generate_price_recommendation L current_price
                                       optimal_price target_price elasticity\<rparr>)))))"

subsection \<open>AutoReorderSystem\<close>

text \<open>The dictionary of \<^verbatim>\<open>calculate_reorder_point\<close> and of
  \<^verbatim>\<open>_simple_reorder_calculation\<close>: the keys \<^verbatim>\<open>safety_stock\<close>, \<^verbatim>\<open>lead_time_demand\<close> and
  \<^verbatim>\<open>service_level\<close> are written by the first only, the key \<^verbatim>\<open>method\<close> by the second
  only.\<close>

record reorder_calc =
  rc_product_id :: int
  rc_location_id :: int
  rc_reorder_point :: real
  rc_safety_stock :: "real option"
  rc_economic_order_quantity :: real
  rc_lead_time_demand :: "real option"
  rc_average_daily_demand :: real
  rc_service_level :: "real option"
  rc_method :: "string option"
  rc_recommendation :: string

definition reorder_recommendation :: "lib \<Rightarrow> real \<Rightarrow> real \<Rightarrow> string" where
  "reorder_recommendation L point quantity =
     ''Reorder when stock reaches '' @ str_num L (py_round point 0) @ '' units. Order ''
       @ str_num L (py_round quantity 0) @ '' units each time.''"

definition simple_reorder_calculation :: "lib \<Rightarrow> db \<Rightarrow> int \<Rightarrow> int \<Rightarrow> err + reorder_calc" where
  "simple_reorder_calculation L D product_id location_id =
     (case q_avg_daily_sales_at D product_id location_id of Inl e \<Rightarrow> Inl e
      | Inr avg_sales \<Rightarrow>
          (let daily_demand = (case avg_sales of None \<Rightarrow> 0.1
                               | Some a \<Rightarrow> if a \<noteq> 0 then a else 0.1);
               reorder_point = daily_demand * 14 * 1.5;
               order_quantity = daily_demand * 30
           in Inr \<lparr>rc_product_id = product_id,
                   rc_location_id = location_id,
                   rc_reorder_point = py_round reorder_point 0,
                   rc_safety_stock = None,
                   rc_economic_order_quantity = py_round order_quantity 0,
                   rc_lead_time_demand = None,
                   rc_average_daily_demand = py_round daily_demand 2,
                   rc_service_level = None,
                   rc_method = Some ''simple'',
                   rc_recommendation = reorder_recommendation L reorder_point order_quantity\<rparr>))"

text \<open>Lines 512 to 579: the calculation from a successful forecast.\<close>

definition statistical_reorder ::
  "lib \<Rightarrow> db \<Rightarrow> int \<Rightarrow> int \<Rightarrow> real \<Rightarrow> forecast \<Rightarrow> err + reorder_calc" where
  "statistical_reorder L D product_id location_id service_level demand_forecast =
     (let lead_time_days = 7;
          avg_daily_demand = fc_average_daily_demand demand_forecast
      in case q_daily_sales_at D product_id location_id of Inl e \<Rightarrow> Inl e
         | Inr daily_sales \<Rightarrow>
           (let demand_std = (if length daily_sales < 10 then avg_daily_demand * 0.3
                              else pd_std daily_sales);
                z_score = norm_ppf L service_level;
                safety_stock = z_score * demand_std * sqrt lead_time_days;
                lead_time_demand = avg_daily_demand * lead_time_days;
                reorder_point = lead_time_demand + safety_stock
            in case q_product D product_id of Inl e \<Rightarrow> Inl e
               | Inr product \<Rightarrow>
                 (let eoq = (case product of None \<Rightarrow> avg_daily_demand * 30
                             | Some pr \<Rightarrow>
                               (case p_cost pr of None \<Rightarrow> avg_daily_demand * 30
                                | Some c \<Rightarrow>
                                    if c \<noteq> 0
                                    then sqrt ((2 * (avg_daily_demand * 365) * 50) / (c * 0.20))
                                    else avg_daily_demand * 30))
                  in Inr \<lparr>rc_product_id = product_id,
                          rc_location_id = location_id,
                          rc_reorder_point = py_round reorder_point 0,
                          rc_safety_stock = Some (py_round safety_stock 0),
                          rc_economic_order_quantity = py_round eoq 0,
                          rc_lead_time_demand = Some (py_round lead_time_demand 1),
                          rc_average_daily_demand = py_round avg_daily_demand 2,
                          rc_service_level = Some service_level,
                          rc_method = None,
                          rc_recommendation = reorder_recommendation L reorder_point eoq\<rparr>)))"

text \<open>The system owns a \<^verbatim>\<open>DemandForecaster\<close>, whose state is threaded through.\<close>

definition calculate_reorder_point ::
  "lib \<Rightarrow> db \<Rightarrow> forecaster \<Rightarrow> int \<Rightarrow> int \<Rightarrow> real \<Rightarrow> (err + reorder_calc) \<times> forecaster" where
  "calculate_reorder_point L D st product_id location_id service_level =
     (case predict_demand L D st product_id 30 of
        (Inl e, st') \<Rightarrow> (simple_reorder_calculation L D product_id location_id, st')
      | (Inr demand_forecast, st') \<Rightarrow>
          (statistical_reorder L D product_id location_id service_level demand_forecast, st'))"

definition calculate_priority :: "int \<Rightarrow> int \<Rightarrow> int" where
  "calculate_priority current_stock reorder_level =
     (if current_stock \<le> 0 then 100
      else if real_of_int current_stock \<le> real_of_int reorder_level * 0.5 then 80
      else if real_of_int current_stock \<le> real_of_int reorder_level * 0.75 then 60
      else 40)"

record suggestion =
  sg_product_id :: int
  sg_product_name :: string
  sg_location_id :: int
  sg_current_stock :: int
  sg_reorder_level :: int
  sg_suggested_reorder_point :: real
  sg_suggested_order_quantity :: real
  sg_current_reorder_quantity :: int
  sg_priority :: int
  sg_recommendation :: string

definition make_suggestion :: "low_stock_row \<Rightarrow> reorder_calc \<Rightarrow> suggestion" where
  "make_suggestion product reorder = 
     \<lparr>sg_product_id = ls_product_id product,
      sg_product_name = ls_name product,
      sg_location_id = ls_location_id product,
      sg_current_stock = ls_stock_quantity product,
      sg_reorder_level = ls_reorder_level product,
      sg_suggested_reorder_point = rc_reorder_point reorder,
      sg_suggested_order_quantity = rc_economic_order_quantity reorder,
      sg_current_reorder_quantity = ls_reorder_quantity product,
      sg_priority = calculate_priority (ls_stock_quantity product) (ls_reorder_level product),
      sg_recommendation = rc_recommendation reorder\<rparr>"

text \<open>Lines 657 to 677: the loop over the low-stock rows, with the default service level
  0.95; \<open>suggestions\<close> is the list built so far.\<close>

fun suggestions_loop ::
  "lib \<Rightarrow> db \<Rightarrow> forecaster \<Rightarrow> low_stock_row list \<Rightarrow> suggestion list
   \<Rightarrow> suggestion list \<times> forecaster" where
  "suggestions_loop L D st [] suggestions = (suggestions, st)"
| "suggestions_loop L D st (product # rest) suggestions =
     (case calculate_reorder_point L D st (ls_product_id product) (ls_location_id product) 0.95 of
        (Inl e, st') \<Rightarrow> suggestions_loop L D st' rest suggestions
      | (Inr reorder, st') \<Rightarrow>
          suggestions_loop L D st' rest (suggestions @ [make_suggestion product reorder]))"

text \<open>\<^verbatim>\<open>generate_reorder_suggestions\<close>: \<^verbatim>\<open>if location_id:\<close> is false for \<^verbatim>\<open>None\<close> and for 0;
  the sort is stable and descending in the priority; an exception of the query gives the
  empty list.\<close>

definition generate_reorder_suggestions ::
  "lib \<Rightarrow> db \<Rightarrow> forecaster \<Rightarrow> int option \<Rightarrow> suggestion list \<times> forecaster" where
  "generate_reorder_suggestions L D st location_id =
     (case q_low_stock D (case location_id of None \<Rightarrow> None
                          | Some l \<Rightarrow> if l \<noteq> 0 then Some l else None) of
        Inl e \<Rightarrow> ([], st)
      | Inr low_stock_products \<Rightarrow>
          (case suggestions_loop L D st low_stock_products [] of
             (suggestions, st') \<Rightarrow> (sort_key (\<lambda>x. - sg_priority x) suggestions, st')))"

text \<open>
  The calls of \<^verbatim>\<open>calculate_reorder_point\<close> that the loop of lines 657 to 662 makes on the
  low-stock rows, in order: each row with the result of its calculation in the state in
  which the forecaster is when the loop reaches the row, that is the state the
  calculations of the rows before it have left.
\<close>

fun reorder_run ::
  "lib \<Rightarrow> db \<Rightarrow> forecaster \<Rightarrow> low_stock_row list
   \<Rightarrow> (low_stock_row \<times> (err + reorder_calc)) list" where
  "reorder_run L D st [] = []"
| "reorder_run L D st (product # rest) =
     (case calculate_reorder_point L D st (ls_product_id product) (ls_location_id product) 0.95 of
        (res, st') \<Rightarrow> (product, res) # reorder_run L D st' rest)"

subsection \<open>The forecast walk as the specification describes it\<close>

text \<open>
  The specification of \<^verbatim>\<open>predict\<close> asks for an autoregressive walk: each day's clamped
  prediction is appended to the rolling buffer, so that the lag and rolling features of
  the later days see it. The following loop follows these words; it is not the code's
  loop, which is \<open>forecast_loop\<close>. The buffer is the frame \<open>recent_sales\<close>, extended by one
  row for each predicted day.
\<close>

fun autoregressive_loop ::
  "lib \<Rightarrow> forecaster \<Rightarrow> int \<Rightarrow> sale_row list \<Rightarrow> date list \<Rightarrow> (string \<times> real) list
   \<Rightarrow> err + (string \<times> real) list" where
  "autoregressive_loop L st product_id buffer [] predictions = Inr predictions"
| "autoregressive_loop L st product_id buffer (d # ds) predictions =
     (case predict_day L st product_id buffer d of Inl e \<Rightarrow> Inl e
      | Inr pred \<Rightarrow>
          autoregressive_loop L st product_id
            (buffer @ [\<lparr>sr_product_id = product_id, sr_sale_date = d, sr_quantity = pred,
                         sr_price = 0, sr_location_id = 0\<rparr>]) ds
            (predictions @ [(strftime L d, py_round pred 2)]))"

subsection \<open>Example inputs\<close>

text \<open>A model that predicts the constant \<open>c\<close>, and one that predicts the feature
  \<^verbatim>\<open>sales_lag_1\<close> (position 8 of the feature vector) plus one.\<close>

definition demo_model :: "real \<Rightarrow> model" where
  "demo_model c = \<lparr>predict = (\<lambda>x. Inr c), has_coef = False\<rparr>"

definition lag_model :: model where
  "lag_model = \<lparr>predict = (\<lambda>x. Inr (x ! 8 + 1)), has_coef = False\<rparr>"

text \<open>Libraries in which every fit returns the constant model 0, the training table has
  20 rows with target 1, and the quantile function is a line.\<close>

definition demo_lib :: lib where
  "demo_lib =
     \<lparr>dayofweek = (\<lambda>d. nat (d mod 7)), month = (\<lambda>d. 1), quarter = (\<lambda>d. 1),
      strftime = (\<lambda>d. ''day''),
      build_training_table = (\<lambda>pid rows. Inr (replicate 20 ([], 1))),
      fit_scaler = (\<lambda>X. Inr \<lparr>transform = Inr\<rparr>),
      fit_model = (\<lambda>name X y. Inr (demo_model 0)),
      norm_ppf = (\<lambda>p. p - 1 / 2),
      str_num = (\<lambda>x. ''n''), fmt_fixed = (\<lambda>n x. ''n''),
      price_buckets = (\<lambda>rows. Inr []), linreg_slope = (\<lambda>xs ys. Inr 0)\<rparr>"

definition demo_row :: sale_row where
  "demo_row = \<lparr>sr_product_id = 1, sr_sale_date = 100, sr_quantity = 5, sr_price = 50,
                sr_location_id = 1\<rparr>"

text \<open>A database whose sales history has \<open>n\<close> rows and that is empty otherwise.\<close>

definition demo_db :: "nat \<Rightarrow> db" where
  "demo_db n =
     \<lparr>q_sales = (\<lambda>flt days. Inr (replicate n demo_row)),
      q_price_history = (\<lambda>pid. Inr []),
      q_product = (\<lambda>pid. Inr None),
      q_avg_daily_sales = (\<lambda>pid. Inr None),
      q_daily_sales_at = (\<lambda>pid loc. Inr []),
      q_avg_daily_sales_at = (\<lambda>pid loc. Inr None),
      q_low_stock = (\<lambda>flt. Inr [])\<rparr>"

definition empty_forecaster :: forecaster where
  "empty_forecaster =
     \<lparr>models = Map.empty, scalers = Map.empty, model_files = Map.empty,
      scaler_files = Map.empty\<rparr>"

definition lag_forecaster :: forecaster where
  "lag_forecaster = empty_forecaster\<lparr>models := [1 \<mapsto> Some lag_model]\<rparr>"

definition zero_forecaster :: forecaster where
  "zero_forecaster = empty_forecaster\<lparr>models := [1 \<mapsto> Some (demo_model 0)]\<rparr>"

text \<open>A database with two low-stock products and no sales history; the 30-day average of
  product 1 cannot be read.\<close>

definition low_row :: "int \<Rightarrow> low_stock_row" where
  "low_row pid = \<lparr>ls_product_id = pid, ls_location_id = 1, ls_stock_quantity = 0,
                  ls_name = ''item'', ls_reorder_level = 10, ls_reorder_quantity = 50\<rparr>"

definition batch_db :: db where
  "batch_db =
     \<lparr>q_sales = (\<lambda>flt days. Inr []),
      q_price_history = (\<lambda>pid. Inr []),
      q_product = (\<lambda>pid. Inr None),
      q_avg_daily_sales = (\<lambda>pid. Inr None),
      q_daily_sales_at = (\<lambda>pid loc. Inr []),
      q_avg_daily_sales_at = (\<lambda>pid loc. if pid = 1 then Inl ''connection lost'' else Inr (Some 2)),
      q_low_stock = (\<lambda>flt. Inr [low_row 1, low_row 2])\<rparr>"

text \<open>A database with one product of cost 0.04 and price 0.02, and no sales.\<close>

definition cheap_product :: product_row where
  "cheap_product = \<lparr>p_price = Some (2 / 100), p_cost = Some (4 / 100), p_name = ''resistor''\<rparr>"

definition cheap_db :: db where
  "cheap_db =
     \<lparr>q_sales = (\<lambda>flt days. Inr []),
      q_price_history = (\<lambda>pid. Inr []),
      q_product = (\<lambda>pid. Inr (Some cheap_product)),
      q_avg_daily_sales = (\<lambda>pid. Inr None),
      q_daily_sales_at = (\<lambda>pid loc. Inr []),
      q_avg_daily_sales_at = (\<lambda>pid loc. Inr None),
      q_low_stock = (\<lambda>flt. Inr [])\<rparr>"

text \<open>A database with one product of cost 10 and price 4.1 whose recorded average daily
  quantity is -1 (returns entered as negative quantities), and one with a product of cost
  60 and price 100 that sells 5 a day.\<close>

definition returned_product :: product_row where
  "returned_product = \<lparr>p_price = Some (41 / 10), p_cost = Some 10, p_name = ''cable''\<rparr>"

definition returns_db :: db where
  "returns_db =
     \<lparr>q_sales = (\<lambda>flt days. Inr []),
      q_price_history = (\<lambda>pid. Inr []),
      q_product = (\<lambda>pid. Inr (Some returned_product)),
      q_avg_daily_sales = (\<lambda>pid. Inr (Some (- 1))),
      q_daily_sales_at = (\<lambda>pid loc. Inr []),
      q_avg_daily_sales_at = (\<lambda>pid loc. Inr None),
      q_low_stock = (\<lambda>flt. Inr [])\<rparr>"

definition priced_product :: product_row where
  "priced_product = \<lparr>p_price = Some 100, p_cost = Some 60, p_name = ''phone''\<rparr>"

definition priced_db :: db where
  "priced_db =
     \<lparr>q_sales = (\<lambda>flt days. Inr []),
      q_price_history = (\<lambda>pid. Inr []),
      q_product = (\<lambda>pid. Inr (Some priced_product)),
      q_avg_daily_sales = (\<lambda>pid. Inr (Some 5)),
      q_daily_sales_at = (\<lambda>pid loc. Inr []),
      q_avg_daily_sales_at = (\<lambda>pid loc. Inr None),
      q_low_stock = (\<lambda>flt. Inr [])\<rparr>"

text \<open>Libraries whose quantile function has the values of the standard normal
  distribution at 0.9 and 0.95 (1.2816 and 1.6449) and is a step function between, and a
  forecaster whose model for product 1 predicts 20 a day.\<close>

definition z_table :: "real \<Rightarrow> real" where
  "z_table p =
     (if p < 9 / 10 then 0 else if p < 95 / 100 then 12816 / 10000 else 16449 / 10000)"

definition table_lib :: lib where
  "table_lib = demo_lib\<lparr>norm_ppf := z_table\<rparr>"

definition twenty_forecaster :: forecaster where
  "twenty_forecaster = empty_forecaster\<lparr>models := [1 \<mapsto> Some (demo_model 20)]\<rparr>"

text \<open>The results of the calls on these inputs that the examples below refer to.\<close>

definition lag_forecast :: forecast where
  "lag_forecast =
     \<lparr>fc_product_id = 1, fc_predictions = [(''day'', 6), (''day'', 6)],
      fc_total_predicted_demand = 12, fc_average_daily_demand = 6\<rparr>"

definition simple_calc :: reorder_calc where
  "simple_calc =
     \<lparr>rc_product_id = 2, rc_location_id = 1, rc_reorder_point = 42,
      rc_safety_stock = None, rc_economic_order_quantity = 60,
      rc_lead_time_demand = None, rc_average_daily_demand = 2,
      rc_service_level = None, rc_method = Some ''simple'',
      rc_recommendation = ''Reorder when stock reaches n units. Order n units each time.''\<rparr>"

definition zero_calc :: "real \<Rightarrow> reorder_calc" where
  "zero_calc s =
     \<lparr>rc_product_id = 1, rc_location_id = 1, rc_reorder_point = 0,
      rc_safety_stock = Some 0, rc_economic_order_quantity = 0,
      rc_lead_time_demand = Some 0, rc_average_daily_demand = 0,
      rc_service_level = Some s, rc_method = None,
      rc_recommendation = ''Reorder when stock reaches n units. Order n units each time.''\<rparr>"

definition twenty_calc :: "real \<Rightarrow> real \<Rightarrow> real \<Rightarrow> reorder_calc" where
  "twenty_calc s point safety =
     \<lparr>rc_product_id = 1, rc_location_id = 1, rc_reorder_point = point,
      rc_safety_stock = Some safety, rc_economic_order_quantity = 600,
      rc_lead_time_demand = Some 140, rc_average_daily_demand = 20,
      rc_service_level = Some s, rc_method = None,
      rc_recommendation = ''Reorder when stock reaches n units. Order n units each time.''\<rparr>"

section \<open>Properties\<close>

subsection \<open>Rounding and sequences of fallible steps\<close>

lemma round_half_even_mono:
  assumes "x \<le> y"
  shows "round_half_even x \<le> round_half_even y"
proof (cases "\<lfloor>x\<rfloor> = \<lfloor>y\<rfloor>")
  case True
  with assms show ?thesis
    unfolding round_half_even_def Let_def by auto
next
  case False
  with assms have "\<lfloor>x\<rfloor> < \<lfloor>y\<rfloor>"
    using floor_mono [of x y] by linarith
  moreover have "round_half_even x \<le> \<lfloor>x\<rfloor> + 1"
    unfolding round_half_even_def Let_def by auto
  moreover have "\<lfloor>y\<rfloor> \<le> round_half_even y"
    unfolding round_half_even_def Let_def by auto
  ultimately show ?thesis by linarith
qed

lemma round_half_even_of_int [simp]: "round_half_even (of_int n) = n"
  by (simp add: round_half_even_def)

lemma round_half_even_0 [simp]: "round_half_even 0 = 0"
  using round_half_even_of_int [of 0] by simp

lemma round_half_even_numeral [simp]: "round_half_even (numeral n) = numeral n"
  using round_half_even_of_int [of "numeral n"] by simp

lemma py_round_mono: "x \<le> y \<Longrightarrow> py_round x n \<le> py_round y n"
  unfolding py_round_def
  by (intro divide_right_mono) (auto intro!: round_half_even_mono mult_right_mono)

lemma py_round_0 [simp]: "py_round 0 n = 0"
  by (simp add: py_round_def)

lemma py_round_nonneg: "0 \<le> x \<Longrightarrow> 0 \<le> py_round x n"
  using py_round_mono [of 0 x n] by simp

lemma py_round_0_eq:
  assumes "real_of_int n - 1 / 2 < x" and "x < real_of_int n + 1 / 2"
  shows "py_round x 0 = real_of_int n"
proof -
  have "round_half_even x = n"
  proof (cases "x < real_of_int n")
    case True
    with assms have "\<lfloor>x\<rfloor> = n - 1" by linarith
    with assms show ?thesis by (simp add: round_half_even_def Let_def)
  next
    case False
    with assms have "\<lfloor>x\<rfloor> = n" by linarith
    with assms show ?thesis by (simp add: round_half_even_def Let_def)
  qed
  then show ?thesis by (simp add: py_round_def)
qed

lemma sqrt_7_bounds: "2645 / 1000 < sqrt 7" "sqrt 7 < 2646 / 1000"
proof -
  show "2645 / 1000 < sqrt 7"
    by (rule real_less_rsqrt) (simp add: power2_eq_square)
  show "sqrt 7 < 2646 / 1000"
    by (rule real_less_lsqrt) (simp_all add: power2_eq_square)
qed

lemma map_err_replicate:
  "map_err f (replicate n x) =
     (if n = 0 then Inr [] else case f x of Inl e \<Rightarrow> Inl e | Inr y \<Rightarrow> Inr (replicate n y))"
  by (induction n) (auto split: sum.splits)

lemma map_err_length: "map_err f xs = Inr ys \<Longrightarrow> length ys = length xs"
proof (induction xs arbitrary: ys)
  case Nil
  then show ?case by simp
next
  case (Cons x xs)
  then show ?case by (auto split: sum.splits)
qed

subsection \<open>Training\<close>

text \<open>
  C6. A product whose raw sales history has fewer than 30 rows: \<^verbatim>\<open>train_demand_model\<close>
  returns the error "Insufficient historical data", and the forecaster's state (the
  model and scaler files and the two dictionaries) is the one before the call.
\<close>

theorem train_insufficient_history:
  assumes "get_sales_data D (Some product_id) 365 = Inr sales_data"
    and "length sales_data < 30"
  shows "train_demand_model L D st product_id = (Inl ''Insufficient historical data'', st)"
  using assms by (simp add: train_demand_model_def)

text \<open>A history of 29 rows.\<close>

theorem train_insufficient_history_witness:
  "train_demand_model demo_lib (demo_db 29) empty_forecaster 1
     = (Inl ''Insufficient historical data'', empty_forecaster)"
  using train_insufficient_history
    [of "demo_db 29" 1 "replicate 29 demo_row" demo_lib empty_forecaster]
  by (simp add: get_sales_data_def demo_db_def)

text \<open>
  C3, as the code has it. When the three candidates are fitted and scored, the one with
  the lowest held-out MAE is selected, and among candidates of equal lowest MAE the
  first in the order random forest, gradient boosting, linear regression: the linear
  model is selected only when its MAE is strictly below the other two.
\<close>

theorem selection_first_minimum:
  assumes "fit_and_score L Xtr Xtrs ytr Xte Xtes yte ''random_forest'' = Inr (m1, a1)"
    and "fit_and_score L Xtr Xtrs ytr Xte Xtes yte ''gradient_boosting'' = Inr (m2, a2)"
    and "fit_and_score L Xtr Xtrs ytr Xte Xtes yte ''linear_regression'' = Inr (m3, a3)"
  shows "candidates_loop L Xtr Xtrs ytr Xte Xtes yte model_names (None, PosInf, None) =
           Inr (if a1 \<le> a2 \<and> a1 \<le> a3 then (Some m1, Finite a1, Some ''random_forest'')
                else if a2 \<le> a3 then (Some m2, Finite a2, Some ''gradient_boosting'')
                else (Some m3, Finite a3, Some ''linear_regression''))"
  using assms by (auto simp add: model_names_def consider_candidate_def)

text \<open>One test row with target 1 and three candidates that predict 0.\<close>

theorem selection_first_minimum_witness:
  "candidates_loop demo_lib [[]] [[]] [1] [[]] [[]] [1] model_names (None, PosInf, None) =
     Inr (Some (demo_model 0), Finite 1, Some ''random_forest'')"
  using selection_first_minimum [of demo_lib "[[]]" "[[]]" "[1]" "[[]]" "[[]]" "[1]"
      "demo_model 0" 1 "demo_model 0" 1 "demo_model 0" 1]
  by (simp add: fit_and_score_def demo_lib_def mean_absolute_error_def demo_model_def)

text \<open>
  C3 as stated fails: with 30 rows of history and three candidates of the same held-out
  MAE 1, the random forest is selected, although the linear model attains the minimum.
\<close>

theorem selection_tie_counterexample:
  "fst (train_demand_model demo_lib (demo_db 30) empty_forecaster 1) =
     Inr \<lparr>tr_model_type = Some ''random_forest'', tr_mae = Finite 1,
          tr_training_samples = 16, tr_test_samples = 4\<rparr>
   \<and> map_sum id snd
        (fit_and_score demo_lib (replicate 16 []) (replicate 16 []) (replicate 16 1)
           (replicate 4 []) (replicate 4 []) (replicate 4 1) ''linear_regression'') = Inr 1"
  by (simp add: train_demand_model_def get_sales_data_def demo_db_def demo_lib_def
      train_on_table_def train_test_split_def map_err_replicate model_names_def
      fit_and_score_def demo_model_def mean_absolute_error_def consider_candidate_def
      persist_def sum_list_replicate)

subsection \<open>Forecasting\<close>

text \<open>The loop returns the accumulated list followed by one entry for each date, and
  every day is predicted from the same frame \<open>recent_sales\<close>.\<close>

lemma forecast_loop_entries:
  assumes "forecast_loop L st pid recent_sales ds acc = Inr preds"
  shows "\<exists>qs. map_err (predict_day L st pid recent_sales) ds = Inr qs
            \<and> preds = acc @ map2 (\<lambda>d q. (strftime L d, py_round q 2)) ds qs"
  using assms
proof (induction ds arbitrary: acc)
  case Nil
  then show ?case by simp
next
  case (Cons d ds)
  from Cons.prems obtain q where q: "predict_day L st pid recent_sales d = Inr q"
    and loop: "forecast_loop L st pid recent_sales ds (acc @ [(strftime L d, py_round q 2)])
                 = Inr preds"
    by (auto split: sum.splits)
  from Cons.IH [OF loop] obtain qs where
    "map_err (predict_day L st pid recent_sales) ds = Inr qs"
    "preds = (acc @ [(strftime L d, py_round q 2)])
               @ map2 (\<lambda>d q. (strftime L d, py_round q 2)) ds qs"
    by blast
  with q show ?case by simp
qed

lemma predict_day_nonneg: "predict_day L st pid recent_sales d = Inr q \<Longrightarrow> 0 \<le> q"
  by (auto simp add: predict_day_def Let_def split: option.splits sum.splits if_splits)

lemma forecast_loop_nonneg:
  assumes "forecast_loop L st pid recent_sales ds acc = Inr preds"
    and "\<forall>(d, q) \<in> set acc. 0 \<le> q"
  shows "\<forall>(d, q) \<in> set preds. 0 \<le> q"
  using assms
proof (induction ds arbitrary: acc)
  case Nil
  then show ?case by simp
next
  case (Cons d ds)
  from Cons.prems(1) obtain p where p: "predict_day L st pid recent_sales d = Inr p"
    and loop: "forecast_loop L st pid recent_sales ds (acc @ [(strftime L d, py_round p 2)])
                 = Inr preds"
    by (auto split: sum.splits)
  from p have "0 \<le> py_round p 2"
    by (intro py_round_nonneg predict_day_nonneg)
  with Cons.prems(2) have "\<forall>(d, q) \<in> set (acc @ [(strftime L d, py_round p 2)]). 0 \<le> q"
    by auto
  from Cons.IH [OF loop this] show ?case .
qed

text \<open>The keys of the calendar features are not lag keys, so filling the missing lag
  keys leaves the calendar part in front.\<close>

lemma fill_missing_prefix:
  "set ks \<inter> fst ` set pre = {} \<Longrightarrow> fill_missing ks (pre @ row) = pre @ fill_missing ks row"
proof (induction ks arbitrary: row)
  case Nil
  then show ?case by simp
next
  case (Cons k ks)
  then have "map_of pre k = None"
    by (simp add: map_of_eq_None_iff)
  then have "map_of (pre @ row) k = map_of row k"
    by (simp add: map_add_def split: option.splits)
  with Cons show ?case by simp
qed

lemma feature_row_split:
  "feature_row L recent_sales d =
     calendar_features L d @ fill_missing lag_keys (lag_features (recent_quantities recent_sales))"
  unfolding feature_row_def
  by (rule fill_missing_prefix) (simp add: calendar_features_def lag_keys_def)

text \<open>What a successful call of \<^verbatim>\<open>predict_demand\<close> has computed.\<close>

lemma predict_demand_success:
  assumes "predict_demand L D st pid days_ahead = (Inr fc, st')"
  shows "\<exists>recent_sales future_dates.
           get_sales_data D (Some pid) 90 = Inr recent_sales
         \<and> date_range (max_date recent_sales + 1) days_ahead = Inr future_dates
         \<and> forecast_loop L st' pid recent_sales future_dates [] = Inr (fc_predictions fc)
         \<and> days_ahead \<noteq> 0
         \<and> fc_average_daily_demand fc =
             py_round (sum_list (map snd (fc_predictions fc)) / real_of_int days_ahead) 2"
  using assms
  by (auto simp add: predict_demand_def forecast_from_def Let_def
      split: prod.splits option.splits sum.splits if_splits)

lemma sum_list_nonneg_snd:
  "\<forall>(d, q) \<in> set ps. (0::real) \<le> q \<Longrightarrow> 0 \<le> sum_list (map snd ps)"
  by (induction ps) auto

lemma average_daily_demand_nonneg:
  assumes "predict_demand L D st pid days_ahead = (Inr fc, st')" and "0 < days_ahead"
  shows "0 \<le> fc_average_daily_demand fc"
proof -
  from predict_demand_success [OF assms(1)] obtain recent_sales future_dates where
    loop: "forecast_loop L st' pid recent_sales future_dates [] = Inr (fc_predictions fc)"
    and avg: "fc_average_daily_demand fc =
             py_round (sum_list (map snd (fc_predictions fc)) / real_of_int days_ahead) 2"
    by blast
  from loop have "\<forall>(d, q) \<in> set (fc_predictions fc). 0 \<le> q"
    by (rule forecast_loop_nonneg) simp
  then have "0 \<le> sum_list (map snd (fc_predictions fc))"
    by (rule sum_list_nonneg_snd)
  with assms(2) show ?thesis
    unfolding avg by (intro py_round_nonneg divide_nonneg_nonneg) simp_all
qed

text \<open>A forecast of two days from one observed sale of quantity 5, by the model that
  predicts \<^verbatim>\<open>sales_lag_1\<close> plus one.\<close>

lemma lag_forecast_2:
  "predict_demand demo_lib (demo_db 1) lag_forecaster 1 2 = (Inr lag_forecast, lag_forecaster)"
  by (simp add: predict_demand_def load_model_def lag_forecaster_def empty_forecaster_def
      forecast_from_def get_sales_data_def demo_db_def date_range_def predict_day_def
      feature_row_def calendar_features_def lag_features_def recent_quantities_def
      demo_row_def lag_keys_def from_end_def lag_model_def py_round_def upt_rec Let_def
      demo_lib_def lag_forecast_def)

text \<open>
  C9. In every successful result of \<^verbatim>\<open>predict_demand\<close>, the predicted quantity of every
  day of the returned sequence is at least 0.
\<close>

theorem predictions_nonneg:
  assumes "predict_demand L D st pid days_ahead = (Inr fc, st')"
  shows "\<forall>(d, q) \<in> set (fc_predictions fc). 0 \<le> q"
proof -
  from predict_demand_success [OF assms] obtain recent_sales future_dates where
    "forecast_loop L st' pid recent_sales future_dates [] = Inr (fc_predictions fc)"
    by blast
  then show ?thesis
    by (rule forecast_loop_nonneg) simp
qed

text \<open>The two-day forecast above.\<close>

theorem predictions_nonneg_witness:
  "predict_demand demo_lib (demo_db 1) lag_forecaster 1 2 = (Inr lag_forecast, lag_forecaster)
   \<and> list_all (\<lambda>p. 0 \<le> snd p) (fc_predictions lag_forecast)"
proof -
  have "\<forall>(d, q) \<in> set (fc_predictions lag_forecast). 0 \<le> q"
    by (rule predictions_nonneg [OF lag_forecast_2])
  then have "list_all (\<lambda>p. 0 \<le> snd p) (fc_predictions lag_forecast)"
    by (auto simp add: list_all_iff)
  with lag_forecast_2 show ?thesis by (rule conjI)
qed

text \<open>
  C1, as the code has it. In a successful call of \<^verbatim>\<open>predict_demand\<close> every day of the
  horizon is predicted from the same frame of observed sales, the one the 90-day query
  returned: no prediction is appended to it. The feature vector of a day is its calendar
  features followed by lag and rolling features that depend on the observed history
  only, hence are the same for every day of the horizon.
\<close>

theorem predict_demand_fixed_history:
  assumes "predict_demand L D st pid days_ahead = (Inr fc, st')"
  shows "\<exists>recent_sales qs.
           get_sales_data D (Some pid) 90 = Inr recent_sales
         \<and> map_err (predict_day L st' pid recent_sales)
              (map (\<lambda>i. max_date recent_sales + 1 + int i) [0..<nat days_ahead]) = Inr qs
         \<and> map snd (fc_predictions fc) = map (\<lambda>q. py_round q 2) qs
         \<and> (\<forall>d. feature_row L recent_sales d =
                  calendar_features L d @
                  fill_missing lag_keys (lag_features (recent_quantities recent_sales)))"
proof -
  from predict_demand_success [OF assms] obtain recent_sales future_dates where
    rs: "get_sales_data D (Some pid) 90 = Inr recent_sales"
    and dr: "date_range (max_date recent_sales + 1) days_ahead = Inr future_dates"
    and loop: "forecast_loop L st' pid recent_sales future_dates [] = Inr (fc_predictions fc)"
    by blast
  from dr have fd:
    "future_dates = map (\<lambda>i. max_date recent_sales + 1 + int i) [0..<nat days_ahead]"
    by (simp add: date_range_def split: if_splits)
  from forecast_loop_entries [OF loop] obtain qs where
    qs: "map_err (predict_day L st' pid recent_sales) future_dates = Inr qs"
    and eq: "fc_predictions fc = map2 (\<lambda>d q. (strftime L d, py_round q 2)) future_dates qs"
    by auto
  from map_err_length [OF qs] have len: "length qs = length future_dates" .
  have "map snd (fc_predictions fc) = map (\<lambda>q. py_round q 2) qs"
    unfolding eq using len
    by (induction future_dates qs rule: list_induct2') auto
  with rs qs fd show ?thesis
    using feature_row_split by blast
qed

text \<open>The two-day forecast above.\<close>

theorem predict_demand_fixed_history_witness:
  "\<exists>recent_sales qs.
           get_sales_data (demo_db 1) (Some 1) 90 = Inr recent_sales
         \<and> map_err (predict_day demo_lib lag_forecaster 1 recent_sales)
              (map (\<lambda>i. max_date recent_sales + 1 + int i) [0..<nat 2]) = Inr qs
         \<and> map snd (fc_predictions lag_forecast) = map (\<lambda>q. py_round q 2) qs
         \<and> (\<forall>d. feature_row demo_lib recent_sales d =
                  calendar_features demo_lib d @
                  fill_missing lag_keys (lag_features (recent_quantities recent_sales)))"
  by (rule predict_demand_fixed_history [OF lag_forecast_2])

text \<open>
  C1 as stated fails. One observed sale of quantity 5, a model that predicts
  \<^verbatim>\<open>sales_lag_1\<close> plus one, a horizon of two days: the code predicts 6 for both days, the
  second day's lag being the observed 5 again; the walk of the specification, which
  appends the first prediction to the buffer, predicts 6 and then 7.
\<close>

theorem forecast_not_autoregressive:
  "map_sum id (map snd \<circ> fc_predictions)
      (fst (predict_demand demo_lib (demo_db 1) lag_forecaster 1 2)) = Inr [6, 6]
   \<and> map_sum id (map snd)
      (autoregressive_loop demo_lib lag_forecaster 1 [demo_row] [101, 102] []) = Inr [6, 7]"
  by (simp add: predict_demand_def load_model_def lag_forecaster_def empty_forecaster_def
      forecast_from_def get_sales_data_def demo_db_def date_range_def predict_day_def
      feature_row_def calendar_features_def lag_features_def recent_quantities_def
      demo_row_def lag_keys_def from_end_def lag_model_def py_round_def upt_rec Let_def)

text \<open>With \<^verbatim>\<open>days_ahead = 0\<close> no call of \<^verbatim>\<open>predict_demand\<close> succeeds, whatever the
  database, the libraries and the state.\<close>

lemma predict_zero_days_fails: "\<exists>e. fst (predict_demand L D st pid 0) = Inl e"
  by (auto simp add: predict_demand_def forecast_from_def date_range_def Let_def
      split: prod.splits option.splits sum.splits)

text \<open>
  C2 fails on the code. A product with 30 rows of history is trained with success, and
  the call of \<^verbatim>\<open>predict_demand\<close> with \<^verbatim>\<open>days_ahead = 0\<close> on the state after training
  returns the error "division by zero": the loop runs zero times, and line 309 divides
  the total 0 by \<^verbatim>\<open>days_ahead\<close>.
\<close>

theorem predict_zero_days_after_training:
  "(case train_demand_model demo_lib (demo_db 30) empty_forecaster 1 of
      (Inl e, st) \<Rightarrow> False
    | (Inr r, st) \<Rightarrow>
        fst (predict_demand demo_lib (demo_db 30) st 1 0) = Inl ''division by zero'')"
  by (simp add: train_demand_model_def get_sales_data_def demo_db_def demo_lib_def
      train_on_table_def train_test_split_def map_err_replicate model_names_def
      fit_and_score_def demo_model_def mean_absolute_error_def consider_candidate_def
      persist_def sum_list_replicate predict_demand_def load_model_def forecast_from_def
      date_range_def empty_forecaster_def)

subsection \<open>Reorder point\<close>

lemma simple_reorder_2:
  "calculate_reorder_point demo_lib batch_db empty_forecaster 2 1 (95 / 100) =
     (Inr simple_calc, empty_forecaster)"
  by (simp add: calculate_reorder_point_def predict_demand_def load_model_def
      forecast_from_def get_sales_data_def train_demand_model_def batch_db_def
      empty_forecaster_def simple_reorder_calculation_def reorder_recommendation_def
      demo_lib_def py_round_def simple_calc_def)

text \<open>A forecast of 30 days by the model that predicts 0, and the reorder calculation
  from it.\<close>

lemma zero_forecast_30:
  "predict_demand demo_lib (demo_db 1) zero_forecaster 1 30 =
     (Inr \<lparr>fc_product_id = 1, fc_predictions = replicate 30 (''day'', 0),
           fc_total_predicted_demand = 0, fc_average_daily_demand = 0\<rparr>, zero_forecaster)"
  apply (simp add: predict_demand_def load_model_def zero_forecaster_def empty_forecaster_def
      forecast_from_def get_sales_data_def demo_db_def date_range_def predict_day_def
      demo_model_def demo_lib_def upt_rec Let_def)
  apply (simp add: eval_nat_numeral)
  done

lemma zero_reorder:
  "calculate_reorder_point demo_lib (demo_db 1) zero_forecaster 1 1 s =
     (Inr (zero_calc s), zero_forecaster)"
  unfolding calculate_reorder_point_def zero_forecast_30
  by (simp add: statistical_reorder_def demo_db_def reorder_recommendation_def demo_lib_def
      zero_calc_def)

text \<open>
  C4, as the code has it. A successful result of \<^verbatim>\<open>calculate_reorder_point\<close> has the key
  \<^verbatim>\<open>method\<close>, with value "simple", exactly when the forecast failed and the fallback was
  used; the result of the forecast-based path has no key \<^verbatim>\<open>method\<close>. The presence of the
  key tells the two apart.
\<close>

theorem reorder_method_label:
  assumes "calculate_reorder_point L D st pid loc sl = (Inr r, st')"
  shows "rc_method r =
           (if isl (fst (predict_demand L D st pid 30)) then Some ''simple'' else None)"
  using assms
  by (auto simp add: calculate_reorder_point_def simple_reorder_calculation_def
      statistical_reorder_def Let_def split: prod.splits sum.splits)

text \<open>A product without sales history, calculated by the fallback.\<close>

theorem reorder_method_label_witness:
  "rc_method simple_calc =
     (if isl (fst (predict_demand demo_lib batch_db empty_forecaster 2 30))
      then Some ''simple'' else None)"
  by (rule reorder_method_label [OF simple_reorder_2])

text \<open>
  C4 as stated fails: a successful result of the forecast-based path has no key
  \<^verbatim>\<open>method\<close>, so none with the value "statistical".
\<close>

theorem statistical_result_has_no_method:
  "map_sum id rc_method
     (fst (calculate_reorder_point demo_lib (demo_db 1) zero_forecaster 1 1 (95 / 100)))
     = Inr None"
  unfolding zero_reorder by (simp add: zero_calc_def)

lemma pd_std_nonneg: "2 \<le> length xs \<Longrightarrow> 0 \<le> pd_std xs"
  unfolding pd_std_def
  by (intro real_sqrt_ge_zero divide_nonneg_nonneg sum_list_nonneg) auto

lemma statistical_reorder_mono:
  assumes avg: "0 \<le> fc_average_daily_demand fc"
    and z: "norm_ppf L s1 \<le> norm_ppf L s2"
    and r1: "statistical_reorder L D pid loc s1 fc = Inr r1"
    and r2: "statistical_reorder L D pid loc s2 fc = Inr r2"
  shows "rc_reorder_point r1 \<le> rc_reorder_point r2
       \<and> (\<exists>a b. rc_safety_stock r1 = Some a \<and> rc_safety_stock r2 = Some b \<and> a \<le> b)"
proof -
  from r1 obtain daily_sales product where
    q: "q_daily_sales_at D pid loc = Inr daily_sales" "q_product D pid = Inr product"
    by (auto simp add: statistical_reorder_def Let_def split: sum.splits)
  define demand_std where "demand_std =
    (if length daily_sales < 10 then fc_average_daily_demand fc * 0.3 else pd_std daily_sales)"
  have std: "0 \<le> demand_std"
    unfolding demand_std_def using avg by (auto intro: pd_std_nonneg)
  have "norm_ppf L s1 * demand_std \<le> norm_ppf L s2 * demand_std"
    using z std by (rule mult_right_mono)
  then have safety:
    "norm_ppf L s1 * demand_std * sqrt 7 \<le> norm_ppf L s2 * demand_std * sqrt 7"
    by (rule mult_right_mono) simp
  from r1 q have s1:
    "rc_safety_stock r1 = Some (py_round (norm_ppf L s1 * demand_std * sqrt 7) 0)"
    and p1: "rc_reorder_point r1 =
      py_round (fc_average_daily_demand fc * 7 + norm_ppf L s1 * demand_std * sqrt 7) 0"
    by (auto simp add: statistical_reorder_def Let_def demand_std_def)
  from r2 q have s2:
    "rc_safety_stock r2 = Some (py_round (norm_ppf L s2 * demand_std * sqrt 7) 0)"
    and p2: "rc_reorder_point r2 =
      py_round (fc_average_daily_demand fc * 7 + norm_ppf L s2 * demand_std * sqrt 7) 0"
    by (auto simp add: statistical_reorder_def Let_def demand_std_def)
  from safety show ?thesis
    unfolding s1 s2 p1 p2 by (auto intro!: py_round_mono)
qed

text \<open>
  C7. For a quantile function \<^verbatim>\<open>norm.ppf\<close> that is non-decreasing on the open unit
  interval, as the inverse of the standard normal distribution function is, and two
  service levels \<open>s1 \<le> s2\<close> of that interval: two successful calls of
  \<^verbatim>\<open>calculate_reorder_point\<close> on the same database, state, product and location return
  reorder points and safety stocks in the same order. (On the fallback path the result
  does not depend on the service level and has no safety stock.) The demand standard
  deviation is never negative: it is 30 percent of a forecast average that is at least
  0, or a sample standard deviation.
\<close>

theorem reorder_monotone_in_service_level:
  assumes mono: "\<And>a b. 0 < a \<Longrightarrow> a \<le> b \<Longrightarrow> b < 1 \<Longrightarrow> norm_ppf L a \<le> norm_ppf L b"
    and range: "0 < s1" "s1 \<le> s2" "s2 < 1"
    and r1: "calculate_reorder_point L D st pid loc s1 = (Inr r1, st1)"
    and r2: "calculate_reorder_point L D st pid loc s2 = (Inr r2, st2)"
  shows "rc_reorder_point r1 \<le> rc_reorder_point r2
       \<and> (rc_method r1 = Some ''simple'' \<and> rc_method r2 = Some ''simple''
          \<or> (\<exists>a b. rc_safety_stock r1 = Some a \<and> rc_safety_stock r2 = Some b \<and> a \<le> b))"
proof (cases "fst (predict_demand L D st pid 30)")
  case (Inl e)
  with r1 r2 have "r1 = r2" "rc_method r1 = Some ''simple''"
    by (auto simp add: calculate_reorder_point_def simple_reorder_calculation_def Let_def
        split: prod.splits sum.splits)
  then show ?thesis by simp
next
  case (Inr fc)
  then obtain st' where p: "predict_demand L D st pid 30 = (Inr fc, st')"
    by (cases "predict_demand L D st pid 30") auto
  then have avg: "0 \<le> fc_average_daily_demand fc"
    by (rule average_daily_demand_nonneg) simp
  from p r1 have a: "statistical_reorder L D pid loc s1 fc = Inr r1"
    by (simp add: calculate_reorder_point_def)
  from p r2 have b: "statistical_reorder L D pid loc s2 fc = Inr r2"
    by (simp add: calculate_reorder_point_def)
  from mono range have "norm_ppf L s1 \<le> norm_ppf L s2" by simp
  from statistical_reorder_mono [OF avg this a b] show ?thesis by blast
qed

text \<open>A forecast of 30 days by the model that predicts 20, and the reorder calculations
  from it at the service levels 0.9 and 0.95: no daily sales at the location, so the
  demand standard deviation is 30 percent of 20, that is 6.\<close>

lemma twenty_forecast_30:
  "predict_demand table_lib (demo_db 1) twenty_forecaster 1 30 =
     (Inr \<lparr>fc_product_id = 1, fc_predictions = replicate 30 (''day'', 20),
           fc_total_predicted_demand = 600, fc_average_daily_demand = 20\<rparr>,
      twenty_forecaster)"
  apply (simp add: predict_demand_def load_model_def twenty_forecaster_def empty_forecaster_def
      forecast_from_def get_sales_data_def demo_db_def date_range_def predict_day_def
      demo_model_def table_lib_def demo_lib_def upt_rec Let_def py_round_def)
  apply (simp add: eval_nat_numeral)
  done

lemma twenty_reorder_90:
  "calculate_reorder_point table_lib (demo_db 1) twenty_forecaster 1 1 (9 / 10) =
     (Inr (twenty_calc (9 / 10) 160 20), twenty_forecaster)"
proof -
  have a: "py_round (12816 / 10000 * (20 * (3 / 10)) * sqrt 7) 0 = real_of_int 20"
    using sqrt_7_bounds by (intro py_round_0_eq) simp_all
  have b: "py_round (20 * 7 + 12816 / 10000 * (20 * (3 / 10)) * sqrt 7) 0 = real_of_int 160"
    using sqrt_7_bounds by (intro py_round_0_eq) simp_all
  show ?thesis
    unfolding calculate_reorder_point_def twenty_forecast_30
    using a b
    by (simp add: statistical_reorder_def demo_db_def reorder_recommendation_def table_lib_def
        demo_lib_def twenty_calc_def z_table_def py_round_def)
qed

lemma twenty_reorder_95:
  "calculate_reorder_point table_lib (demo_db 1) twenty_forecaster 1 1 (95 / 100) =
     (Inr (twenty_calc (95 / 100) 166 26), twenty_forecaster)"
proof -
  have a: "py_round (16449 / 10000 * (20 * (3 / 10)) * sqrt 7) 0 = real_of_int 26"
    using sqrt_7_bounds by (intro py_round_0_eq) simp_all
  have b: "py_round (20 * 7 + 16449 / 10000 * (20 * (3 / 10)) * sqrt 7) 0 = real_of_int 166"
    using sqrt_7_bounds by (intro py_round_0_eq) simp_all
  show ?thesis
    unfolding calculate_reorder_point_def twenty_forecast_30
    using a b
    by (simp add: statistical_reorder_def demo_db_def reorder_recommendation_def table_lib_def
        demo_lib_def twenty_calc_def z_table_def py_round_def)
qed

text \<open>The scenario of the specification: average daily demand 20, demand standard
  deviation 6, lead time 7 days. At the service level 0.9 the safety stock is 20 and the
  reorder point 160; at 0.95 they are 26 and 166.\<close>

theorem reorder_monotone_in_service_level_witness:
  "calculate_reorder_point table_lib (demo_db 1) twenty_forecaster 1 1 (9 / 10) =
     (Inr (twenty_calc (9 / 10) 160 20), twenty_forecaster)
   \<and> calculate_reorder_point table_lib (demo_db 1) twenty_forecaster 1 1 (95 / 100) =
     (Inr (twenty_calc (95 / 100) 166 26), twenty_forecaster)
   \<and> rc_reorder_point (twenty_calc (9 / 10) 160 20)
       \<le> rc_reorder_point (twenty_calc (95 / 100) 166 26)
   \<and> (rc_method (twenty_calc (9 / 10) 160 20) = Some ''simple''
         \<and> rc_method (twenty_calc (95 / 100) 166 26) = Some ''simple''
      \<or> (\<exists>a b. rc_safety_stock (twenty_calc (9 / 10) 160 20) = Some a
               \<and> rc_safety_stock (twenty_calc (95 / 100) 166 26) = Some b \<and> a \<le> b))"
proof -
  have mono: "\<And>a b. 0 < a \<Longrightarrow> a \<le> b \<Longrightarrow> b < 1
                \<Longrightarrow> norm_ppf table_lib a \<le> norm_ppf table_lib b"
    by (simp add: table_lib_def z_table_def)
  have range: "(0::real) < 9 / 10" "(9 / 10 :: real) \<le> 95 / 100" "(95 / 100 :: real) < 1"
    by simp_all
  from reorder_monotone_in_service_level [OF mono range twenty_reorder_90 twenty_reorder_95]
    twenty_reorder_90 twenty_reorder_95
  show ?thesis by (intro conjI) blast+
qed

subsection \<open>Reorder suggestions\<close>

text \<open>The loop returns the accumulated list followed by the suggestions of the rows whose
  calculation succeeded in the run.\<close>

lemma suggestions_loop_run:
  "fst (suggestions_loop L D st rows acc) =
     acc @ List.map_filter
             (\<lambda>(product, res). case res of Inl e \<Rightarrow> None
                               | Inr reorder \<Rightarrow> Some (make_suggestion product reorder))
             (reorder_run L D st rows)"
proof (induction rows arbitrary: st acc)
  case Nil
  then show ?case by (simp add: map_filter_simps)
next
  case (Cons r rows)
  obtain res st1 where calc:
    "calculate_reorder_point L D st (ls_product_id r) (ls_location_id r) 0.95 = (res, st1)"
    by (cases "calculate_reorder_point L D st (ls_product_id r) (ls_location_id r) 0.95")
  show ?case
  proof (cases res)
    case (Inl e)
    with calc Cons.IH [of st1 acc] show ?thesis
      by (simp add: map_filter_simps)
  next
    case (Inr c)
    with calc Cons.IH [of st1 "acc @ [make_suggestion r c]"] show ?thesis
      by (simp add: map_filter_simps)
  qed
qed

lemma reorder_run_rows: "map fst (reorder_run L D st rows) = rows"
  by (induction rows arbitrary: st) (auto split: prod.splits)

text \<open>
  C5, as the code has it. \<^verbatim>\<open>generate_reorder_suggestions\<close> runs the reorder calculation
  for every low-stock row the query returns, in order, each in the state the forecaster
  has when the loop reaches it: no failure ends the run. The returned list is the stable
  sort, by descending priority, of exactly the suggestions of the rows whose calculation
  succeeded in that run, in the order of the rows. A row whose calculation failed adds
  nothing: the failure is not reported in the output.
\<close>

theorem suggestions_isolate_failures:
  assumes rows: "q_low_stock D (case location_id of None \<Rightarrow> None
                                | Some l \<Rightarrow> if l \<noteq> 0 then Some l else None) = Inr rows"
  shows "map fst (reorder_run L D st rows) = rows
       \<and> fst (generate_reorder_suggestions L D st location_id) =
           sort_key (\<lambda>x. - sg_priority x)
             (List.map_filter
                (\<lambda>(product, res). case res of Inl e \<Rightarrow> None
                                  | Inr reorder \<Rightarrow> Some (make_suggestion product reorder))
                (reorder_run L D st rows))"
  using rows suggestions_loop_run [of L D st rows "[]"]
  by (auto simp add: generate_reorder_suggestions_def reorder_run_rows split: prod.splits)

text \<open>Two low-stock products without sales history: the calculation of the first fails in
  the fallback, that of the second succeeds.\<close>

lemma batch_run:
  "reorder_run demo_lib batch_db empty_forecaster [low_row 1, low_row 2] =
     [(low_row 1, Inl ''connection lost''), (low_row 2, Inr simple_calc)]"
  by (simp add: calculate_reorder_point_def predict_demand_def load_model_def
      forecast_from_def get_sales_data_def train_demand_model_def batch_db_def
      empty_forecaster_def simple_reorder_calculation_def reorder_recommendation_def
      demo_lib_def py_round_def simple_calc_def low_row_def)

text \<open>The batch returns the suggestion of the second product and nothing else.\<close>

theorem suggestions_isolate_failures_witness:
  "reorder_run demo_lib batch_db empty_forecaster [low_row 1, low_row 2] =
     [(low_row 1, Inl ''connection lost''), (low_row 2, Inr simple_calc)]
   \<and> fst (generate_reorder_suggestions demo_lib batch_db empty_forecaster None) =
     [make_suggestion (low_row 2) simple_calc]"
proof -
  have rows: "q_low_stock batch_db (case None of None \<Rightarrow> None
                | Some l \<Rightarrow> if l \<noteq> (0::int) then Some l else None)
              = Inr [low_row 1, low_row 2]"
    by (simp add: batch_db_def)
  from suggestions_isolate_failures [OF rows, of demo_lib empty_forecaster]
  have "fst (generate_reorder_suggestions demo_lib batch_db empty_forecaster None) =
     [make_suggestion (low_row 2) simple_calc]"
    unfolding batch_run by (simp add: map_filter_simps)
  with batch_run show ?thesis by (rule conjI)
qed

text \<open>
  C5 as stated fails in its second half. Of two low-stock products the calculation of
  product 1 fails; the batch returns the one suggestion of product 2, and nothing in the
  output reports the failure of product 1.
\<close>

theorem failures_not_reported:
  "isl (fst (calculate_reorder_point demo_lib batch_db empty_forecaster 1 1 0.95))
   \<and> map sg_product_id
       (fst (generate_reorder_suggestions demo_lib batch_db empty_forecaster None)) = [2]"
  by (simp add: generate_reorder_suggestions_def calculate_reorder_point_def predict_demand_def
      load_model_def forecast_from_def get_sales_data_def train_demand_model_def batch_db_def
      empty_forecaster_def simple_reorder_calculation_def low_row_def make_suggestion_def)

subsection \<open>Price optimisation\<close>

lemma argmax_from_max:
  assumes "bi < length pre" "pre ! bi = b" "\<forall>x \<in> set pre. x \<le> b" "i = length pre"
  shows "argmax_from xs i bi b < length (pre @ xs)
       \<and> (\<forall>x \<in> set (pre @ xs). x \<le> (pre @ xs) ! argmax_from xs i bi b)"
  using assms
proof (induction xs arbitrary: pre i bi b)
  case Nil
  then show ?case by simp
next
  case (Cons x xs)
  show ?case
  proof (cases "b < x")
    case True
    have "argmax_from xs (Suc i) i x < length ((pre @ [x]) @ xs)
       \<and> (\<forall>y \<in> set ((pre @ [x]) @ xs). y \<le> ((pre @ [x]) @ xs) ! argmax_from xs (Suc i) i x)"
      using Cons.prems True by (intro Cons.IH) (auto simp add: nth_append)
    with True show ?thesis by simp
  next
    case False
    have "argmax_from xs (Suc i) bi b < length ((pre @ [x]) @ xs)
       \<and> (\<forall>y \<in> set ((pre @ [x]) @ xs). y \<le> ((pre @ [x]) @ xs) ! argmax_from xs (Suc i) bi b)"
      using Cons.prems False by (intro Cons.IH) (auto simp add: nth_append)
    with False show ?thesis by simp
  qed
qed

lemma np_argmax_max:
  assumes "xs \<noteq> []"
  shows "np_argmax xs < length xs \<and> (\<forall>x \<in> set xs. x \<le> xs ! np_argmax xs)"
proof -
  from assms obtain y ys where xs: "xs = y # ys" by (cases xs) auto
  from argmax_from_max [of 0 "[y]" y 1 ys] show ?thesis
    by (simp add: xs np_argmax_def)
qed

lemma argmax_from_head: "\<forall>x \<in> set xs. x \<le> b \<Longrightarrow> argmax_from xs i bi b = bi"
  by (induction xs arbitrary: i) auto

lemma length_np_linspace [simp]: "length (np_linspace a b n) = n"
  by (simp add: np_linspace_def)

lemma np_linspace_first: "0 < n \<Longrightarrow> np_linspace a b n ! 0 = a"
  by (simp add: np_linspace_def)

lemma np_linspace_Cons:
  "np_linspace a b (Suc n) = a # map (\<lambda>i. a + real i * ((b - a) / real n)) [1..<Suc n]"
  by (simp add: np_linspace_def upt_rec [of 0] del: upt_Suc)

lemma np_linspace_descending:
  assumes "b \<le> a" and "x \<in> set (np_linspace a b n)"
  shows "x \<le> a"
proof -
  from assms(2) have "x \<in> (\<lambda>i. a + real i * ((b - a) / real (n - 1))) ` set [0..<n]"
    unfolding np_linspace_def set_map .
  then obtain i where "x = a + real i * ((b - a) / real (n - 1))"
    by blast
  moreover from assms(1) have "real i * ((b - a) / real (n - 1)) \<le> 0"
    by (intro mult_nonneg_nonpos divide_nonpos_nonneg) auto
  ultimately show ?thesis by simp
qed

lemma profit_function_pos:
  assumes "c < p" "0 < p" "0 < cp" "0 < b"
  shows "0 < profit_function c b cp e p"
proof -
  from assms have "0 < (p / cp) powr e" by simp
  with assms show ?thesis by (simp add: profit_function_def)
qed

text \<open>With elasticity -1 the profit does not decrease in the price.\<close>

lemma profit_mono_unit_elastic:
  assumes "0 < c" "0 < cp" "0 \<le> b" "p \<le> q"
  shows "profit_function c b cp (- 1) p \<le> profit_function c b cp (- 1) q"
proof (cases "p \<le> c")
  case True
  have "0 \<le> profit_function c b cp (- 1) q"
    using assms by (simp add: profit_function_def)
  with True show ?thesis by (simp add: profit_function_def)
next
  case False
  with assms have pos: "0 < p" "0 < q" "c < p" "c < q" by auto
  have "c / q \<le> c / p"
    using assms pos by (intro divide_left_mono) auto
  then have "(p - c) / p \<le> (q - c) / q"
    using pos by (simp add: diff_divide_distrib)
  then have "(b * cp) * ((p - c) / p) \<le> (b * cp) * ((q - c) / q)"
    using assms by (intro mult_left_mono) auto
  moreover have "(p / cp) powr (- 1) = cp / p" "(q / cp) powr (- 1) = cp / q"
    using pos assms by (simp_all add: powr_minus field_simps)
  ultimately show ?thesis
    using pos by (simp add: profit_function_def field_simps)
qed

text \<open>A descending scan under elasticity -1 has its maximum at the first sample.\<close>

lemma np_argmax_descending_scan:
  assumes "0 < c" "0 < cp" "0 \<le> bd" "b \<le> a"
  shows "np_argmax (map (profit_function c bd cp (- 1)) (np_linspace a b 100)) = 0"
proof -
  have "100 = Suc 99" by simp
  then have split: "np_linspace a b 100 =
      a # map (\<lambda>i. a + real i * ((b - a) / real (99::nat))) [1..<Suc 99]"
    using np_linspace_Cons [of a b 99] by simp
  have "\<forall>x \<in> set (np_linspace a b 100).
          profit_function c bd cp (- 1) x \<le> profit_function c bd cp (- 1) a"
    using assms by (auto intro!: profit_mono_unit_elastic np_linspace_descending [of b a _ 100])
  then have "\<forall>y \<in> set (map (profit_function c bd cp (- 1))
        (map (\<lambda>i. a + real i * ((b - a) / real (99::nat))) [1..<Suc 99])).
        y \<le> profit_function c bd cp (- 1) a"
    unfolding split by auto
  then show ?thesis
    unfolding split np_argmax_def by (simp add: argmax_from_head del: upt_Suc)
qed

text \<open>The arg-max of the scan is a price above the cost when the base demand is
  positive: the first sample, 1.1 times the cost, already has a positive profit.\<close>

lemma scan_above_cost:
  fixes cost cp b e :: real
  defines "price_range \<equiv> np_linspace (cost * 1.1) (cp * 2) 100"
  assumes "0 < cost" "0 < cp" "0 < b"
  shows "cost < price_range ! np_argmax (map (profit_function cost b cp e) price_range)
       \<and> price_range ! np_argmax (map (profit_function cost b cp e) price_range)
           \<in> set price_range"
proof -
  let ?profits = "map (profit_function cost b cp e) price_range"
  let ?idx = "np_argmax ?profits"
  have len: "length price_range = 100" by (simp add: price_range_def)
  then have ne: "?profits \<noteq> []" by auto
  from np_argmax_max [OF ne] have idx: "?idx < length price_range"
    and mx: "\<forall>x \<in> set price_range.
               profit_function cost b cp e x \<le> profit_function cost b cp e (price_range ! ?idx)"
    by auto
  have "price_range ! 0 = cost * 1.1"
    by (simp add: price_range_def np_linspace_first)
  moreover have "price_range ! 0 \<in> set price_range"
    using len by (intro nth_mem) simp
  ultimately have "profit_function cost b cp e (cost * 1.1)
      \<le> profit_function cost b cp e (price_range ! ?idx)"
    using mx by metis
  moreover have "0 < profit_function cost b cp e (cost * 1.1)"
    using assms by (intro profit_function_pos) auto
  ultimately have "0 < profit_function cost b cp e (price_range ! ?idx)" by linarith
  then have "cost < price_range ! ?idx"
    by (simp add: profit_function_def split: if_splits)
  with idx show ?thesis by simp
qed

text \<open>The price the scan selects is one of the scanned prices, and none of them has a
  higher profit.\<close>

lemma scan_optimum:
  fixes cost cp b e :: real
  defines "price_range \<equiv> np_linspace (cost * 1.1) (cp * 2) 100"
  defines "optimal \<equiv> price_range ! np_argmax (map (profit_function cost b cp e) price_range)"
  shows "optimal \<in> set price_range
       \<and> (\<forall>q \<in> set price_range.
             profit_function cost b cp e q \<le> profit_function cost b cp e optimal)"
proof -
  let ?profits = "map (profit_function cost b cp e) price_range"
  have len: "length price_range = 100" by (simp add: price_range_def)
  then have ne: "?profits \<noteq> []" by auto
  from np_argmax_max [OF ne] show ?thesis
    unfolding optimal_def by auto
qed

text \<open>
  C8, as the code has it. In a successful call of \<^verbatim>\<open>optimize_price\<close> with positive cost,
  positive current price and a recorded average daily demand that is not negative, the
  arg-max of the scan (the price at the index \<^verbatim>\<open>np.argmax\<close> selects among the 100 prices
  from 1.1 times the cost to twice the current price, under the elasticity and the base
  demand of the call) has the highest profit of the scanned prices and is strictly
  greater than the cost; the returned \<^verbatim>\<open>optimal_price\<close> is that price rounded to two
  decimals, and is at least the cost rounded to two decimals.
\<close>

theorem optimal_price_above_cost:
  assumes prod: "q_product D pid = Inr (Some product)"
    and price: "p_price product = Some cp" "0 < cp"
    and cost: "0 < effective_cost product current_cost"
    and avg: "q_avg_daily_sales D pid = Inr avg" "\<forall>a. avg = Some a \<longrightarrow> 0 \<le> a"
    and res: "optimize_price L D pid current_cost target_margin = Inr r"
  shows "let cost = effective_cost product current_cost;
             elasticity = (case get_price_elasticity L D pid of Inl x \<Rightarrow> - 1
                           | Inr x \<Rightarrow> er_price_elasticity x);
             base_demand = (case avg of None \<Rightarrow> 1 | Some a \<Rightarrow> if a \<noteq> 0 then a else 1);
             price_range = np_linspace (cost * 1.1) (cp * 2) 100;
             profit = profit_function cost base_demand cp elasticity;
             optimal = price_range ! np_argmax (map profit price_range)
         in optimal \<in> set price_range
          \<and> (\<forall>q \<in> set price_range. profit q \<le> profit optimal)
          \<and> cost < optimal
          \<and> pr_optimal_price r = py_round optimal 2
          \<and> py_round cost 2 \<le> pr_optimal_price r"
proof -
  define cost where "cost = effective_cost product current_cost"
  define e where "e = (case get_price_elasticity L D pid of Inl x \<Rightarrow> - 1
                       | Inr x \<Rightarrow> er_price_elasticity x)"
  define b where "b = (case avg of None \<Rightarrow> 1 | Some a \<Rightarrow> if a \<noteq> 0 then a else (1::real))"
  define price_range where "price_range = np_linspace (cost * 1.1) (cp * 2) 100"
  define p where "p = price_range ! np_argmax (map (profit_function cost b cp e) price_range)"
  have b: "0 < b"
    using avg(2) by (cases avg) (auto simp add: b_def less_le)
  from res prod price avg have ret: "pr_optimal_price r = py_round p 2"
    by (auto simp add: optimize_price_def Let_def cost_def e_def b_def price_range_def p_def
        split: if_splits)
  from scan_above_cost [of cost cp b e] cost price(2) b
  have above: "cost < p"
    by (simp_all add: cost_def p_def price_range_def)
  then have "py_round cost 2 \<le> py_round p 2"
    by (intro py_round_mono) simp
  with ret have rounded: "py_round cost 2 \<le> pr_optimal_price r" by simp
  from scan_optimum [of cost cp b e]
  have "p \<in> set price_range"
    "\<forall>q \<in> set price_range. profit_function cost b cp e q \<le> profit_function cost b cp e p"
    by (simp_all add: p_def price_range_def)
  with above ret rounded show ?thesis
    unfolding Let_def cost_def [symmetric] e_def [symmetric] b_def [symmetric]
      price_range_def [symmetric] p_def [symmetric]
    by simp
qed

lemma priced_optimize_succeeds:
  "\<exists>r. optimize_price demo_lib priced_db 1 0 (3 / 10) = Inr r"
  by (simp add: optimize_price_def priced_db_def priced_product_def get_price_elasticity_def
      Let_def)

text \<open>The scan for the product of cost 60 and price 100 with a recorded average of 5 a
  day and elasticity -1 runs from 66 to 200; the profit grows with the price, the arg-max
  is the last sample and the returned \<^verbatim>\<open>optimal_price\<close> is 200.\<close>

lemma priced_argmax:
  "np_argmax (map (profit_function 60 5 100 (- 1)) (np_linspace 66 200 100)) = 99"
  by (simp add: np_linspace_def upt_rec np_argmax_def profit_function_def powr_neg_one)

lemma priced_price: "np_linspace 66 200 100 ! 99 = 200"
  by (simp add: np_linspace_def)

lemma priced_optimum:
  "map_sum id pr_optimal_price (optimize_price demo_lib priced_db 1 0 (3 / 10)) = Inr 200"
  by (simp add: optimize_price_def priced_db_def priced_product_def effective_cost_def
      get_price_elasticity_def priced_argmax priced_price py_round_def Let_def)

theorem optimal_price_above_cost_witness:
  "map_sum id pr_optimal_price (optimize_price demo_lib priced_db 1 0 (3 / 10)) = Inr 200
   \<and> (\<exists>r. optimize_price demo_lib priced_db 1 0 (3 / 10) = Inr r
     \<and> (let cost = effective_cost priced_product 0;
             elasticity = (case get_price_elasticity demo_lib priced_db 1 of Inl x \<Rightarrow> - 1
                           | Inr x \<Rightarrow> er_price_elasticity x);
             base_demand = (case Some 5 of None \<Rightarrow> 1 | Some a \<Rightarrow> if a \<noteq> 0 then a else 1);
             price_range = np_linspace (cost * 1.1) (100 * 2) 100;
             profit = profit_function cost base_demand 100 elasticity;
             optimal = price_range ! np_argmax (map profit price_range)
         in optimal \<in> set price_range
          \<and> (\<forall>q \<in> set price_range. profit q \<le> profit optimal)
          \<and> cost < optimal
          \<and> pr_optimal_price r = py_round optimal 2
          \<and> py_round cost 2 \<le> pr_optimal_price r))"
proof -
  from priced_optimize_succeeds obtain r where
    r: "optimize_price demo_lib priced_db 1 0 (3 / 10) = Inr r" by blast
  have prod: "q_product priced_db 1 = Inr (Some priced_product)"
    by (simp add: priced_db_def)
  have price: "p_price priced_product = Some 100" "(0::real) < 100"
    by (simp_all add: priced_product_def)
  have cost: "0 < effective_cost priced_product 0"
    by (simp add: effective_cost_def priced_product_def)
  have avg: "q_avg_daily_sales priced_db 1 = Inr (Some 5)"
    "\<forall>a. Some (5::real) = Some a \<longrightarrow> 0 \<le> a"
    by (simp_all add: priced_db_def)
  from optimal_price_above_cost [OF prod price cost avg r] r priced_optimum
  show ?thesis by blast
qed

text \<open>The scan for the product of cost 10 and price 4.1, with base demand -1 and
  elasticity -1: the profit is negative above the cost and 0 from the sample of index 36
  on, the first at or below the cost.\<close>

lemma returns_argmax:
  "np_argmax (map (profit_function 10 (- 1) (41 / 10) (- 1)) (np_linspace 11 (41 / 5) 100)) = 36"
  by (simp add: np_linspace_def upt_rec np_argmax_def profit_function_def powr_neg_one)

lemma returns_price: "np_linspace 11 (41 / 5) 100 ! 36 = 1098 / 110"
  by (simp add: np_linspace_def)

text \<open>
  C8 as stated fails, in two ways. For the product of stored cost 0.04 and price 0.02,
  without sales, the scan runs from 0.044 down to 0.04 with elasticity -1 and has its
  maximum at 0.044; the returned \<^verbatim>\<open>optimal_price\<close> is 0.044 rounded to two decimals,
  0.04, which is the cost and not strictly greater. For the product of stored cost 10
  and price 4.1 with a recorded average daily quantity of -1, every scanned price above
  the cost has a negative profit, the arg-max is the first scanned price at or below the
  cost, and the returned \<^verbatim>\<open>optimal_price\<close> is 9.98, below the cost.
\<close>

theorem optimal_price_not_above_cost:
  "map_sum id pr_optimal_price (optimize_price demo_lib cheap_db 1 0 (3 / 10)) = Inr (4 / 100)
   \<and> map_sum id (map_option p_cost) (q_product cheap_db 1) = Inr (Some (Some (4 / 100)))
   \<and> map_sum id pr_optimal_price (optimize_price demo_lib returns_db 1 0 (3 / 10))
       = Inr (998 / 100)
   \<and> map_sum id (map_option p_cost) (q_product returns_db 1) = Inr (Some (Some 10))"
proof -
  have a: "map_sum id pr_optimal_price (optimize_price demo_lib cheap_db 1 0 (3 / 10))
       = Inr (4 / 100)"
    by (simp add: optimize_price_def cheap_db_def cheap_product_def effective_cost_def
      get_price_elasticity_def np_argmax_descending_scan np_linspace_first py_round_def
      round_half_even_def Let_def)
  have b: "map_sum id (map_option p_cost) (q_product cheap_db 1) = Inr (Some (Some (4 / 100)))"
    by (simp add: cheap_db_def cheap_product_def)
  have c: "map_sum id pr_optimal_price (optimize_price demo_lib returns_db 1 0 (3 / 10))
       = Inr (998 / 100)"
    by (simp add: optimize_price_def returns_db_def returned_product_def effective_cost_def
      get_price_elasticity_def returns_argmax returns_price py_round_def
      round_half_even_def Let_def)
  have d: "map_sum id (map_option p_cost) (q_product returns_db 1) = Inr (Some (Some 10))"
    by (simp add: returns_db_def returned_product_def)
  from a b c d show ?thesis by (intro conjI)
qed

text \<open>
  C10. For a product whose stored cost is neither NULL nor 0, the result of
  \<^verbatim>\<open>optimize_price\<close> does not depend on the argument \<^verbatim>\<open>current_cost\<close>: two calls that
  differ in it only return the same result.
\<close>

theorem optimize_price_ignores_argument:
  assumes "q_product D pid = Inr (Some product)" and "p_cost product = Some c" and "c \<noteq> 0"
  shows "optimize_price L D pid c1 target_margin = optimize_price L D pid c2 target_margin"
proof -
  from assms have "effective_cost product c1 = effective_cost product c2"
    by (simp add: effective_cost_def)
  with assms(1) show ?thesis
    by (cases "p_price product") (simp_all add: optimize_price_def Let_def)
qed

text \<open>The product of stored cost 0.04, with the arguments 0 and 99.\<close>

theorem optimize_price_ignores_argument_witness:
  "optimize_price demo_lib cheap_db 1 0 (3 / 10) = optimize_price demo_lib cheap_db 1 99 (3 / 10)"
proof -
  have prod: "q_product cheap_db 1 = Inr (Some cheap_product)"
    by (simp add: cheap_db_def)
  have c: "p_cost cheap_product = Some (4 / 100)" "(4 / 100 :: real) \<noteq> 0"
    by (simp_all add: cheap_product_def)
  show ?thesis
    by (rule optimize_price_ignores_argument [OF prod c])
qed

end
